theory Spec2Isabelle
  imports Main
begin

section \<open>Go library values used by the SDK\<close>

subsection \<open>Errors\<close>

text \<open>
  A Go \<open>error\<close> value. The constructors are the concrete error types that reach the
  code under study:
  \<^item> \<open>Canceled\<close>, \<open>DeadlineExceeded\<close>: the sentinels \<open>context.Canceled\<close> and
    \<open>context.DeadlineExceeded\<close>; \<open>EOF\<close>: the sentinel \<open>io.EOF\<close>;
  \<^item> \<open>ErrorString s\<close>: \<open>errors.New(s)\<close>, a \<open>fmt.Errorf\<close> whose format has no \<open>%w\<close>, and
    any other leaf error of a library, with its text;
  \<^item> \<open>Errorf format err args\<close>: \<open>fmt.Errorf(format, ...)\<close> for a format with one \<open>%w\<close>,
    whose operand is \<open>err\<close>; \<open>args\<close> are the operands of the other verbs. The text of
    such an error is the format filled with the texts of its operands;
  \<^item> \<open>ExitError code\<close>: an \<open>*exec.ExitError\<close> whose \<open>ExitCode()\<close> is \<open>code\<close>;
  \<^item> \<open>ErrExecFailed\<close>: the SDK's own error type, fields \<open>ExitCode\<close>, \<open>Stderr\<close>, \<open>Err\<close>;
  \<^item> \<open>SyntaxError\<close>, \<open>UnmarshalTypeError v\<close>: the two errors of \<open>encoding/json\<close>, the
    second with its field \<open>Value\<close>.
  A nilable \<open>error\<close> is an \<open>error option\<close>. Go compares errors with \<open>==\<close>, which for
  pointer-typed errors is identity; the model compares the values.
\<close>

datatype error =
    Canceled
  | DeadlineExceeded
  | EOF
  | ErrorString string
  | Errorf string error "error list"
  | ExitError int
  | ErrExecFailed (ExitCode: int) (Stderr: string) (Err: "error option")
  | SyntaxError
  | UnmarshalTypeError string

text \<open>
  \<open>errors.Is(err, target)\<close> for a non-nil \<open>err\<close>: the chain of \<open>Unwrap\<close> is walked and each
  link compared with the target. An \<open>Errorf\<close> unwraps to the operand of \<open>%w\<close>,
  \<open>ErrExecFailed\<close> to its field \<open>Err\<close> (\<open>(*ErrExecFailed).Unwrap\<close>); no error type here
  has an \<open>Is\<close> method.
\<close>

fun errors_Is :: "error \<Rightarrow> error \<Rightarrow> bool" where
  "errors_Is (Errorf format err args) target =
     (Errorf format err args = target \<or> errors_Is err target)"
| "errors_Is (ErrExecFailed code stderr (Some err)) target =
     (ErrExecFailed code stderr (Some err) = target \<or> errors_Is err target)"
| "errors_Is err target = (err = target)"

text \<open>
  \<open>errors.As(err, &exitErr)\<close> with \<open>exitErr\<close> of type \<open>*exec.ExitError\<close>: the first
  \<open>ExitError\<close> of the chain, as its exit code.
\<close>

fun errors_As_ExitError :: "error \<Rightarrow> int option" where
  "errors_As_ExitError (ExitError code) = Some code"
| "errors_As_ExitError (Errorf format err args) = errors_As_ExitError err"
| "errors_As_ExitError (ErrExecFailed code stderr (Some err)) = errors_As_ExitError err"
| "errors_As_ExitError err = None"

subsection \<open>White space\<close>

text \<open>
  Go strings and byte slices are byte sequences (\<open>string\<close>, one \<open>char\<close> per byte).
  \<open>strings.TrimSpace\<close> and \<open>bytes.TrimSpace\<close> remove the leading and trailing runs of
  runes for which \<open>unicode.IsSpace\<close> holds. \<open>spaceRunes\<close> lists the UTF-8 encodings of
  these runes: tab, line feed, vertical tab, form feed, carriage return, space, U+0085,
  U+00A0, U+1680, U+2000 to U+200A, U+2028, U+2029, U+202F, U+205F and U+3000. A byte
  sequence that is not valid UTF-8 decodes to \<open>RuneError\<close>, which is not a space.
\<close>

definition spaceRunes :: "string list" where
  "spaceRunes =
     [[CHR 0x09], [CHR 0x0A], [CHR 0x0B], [CHR 0x0C], [CHR 0x0D], [CHR 0x20],
      [CHR 0xC2, CHR 0x85], [CHR 0xC2, CHR 0xA0], [CHR 0xE1, CHR 0x9A, CHR 0x80],
      [CHR 0xE2, CHR 0x80, CHR 0x80], [CHR 0xE2, CHR 0x80, CHR 0x81],
      [CHR 0xE2, CHR 0x80, CHR 0x82], [CHR 0xE2, CHR 0x80, CHR 0x83],
      [CHR 0xE2, CHR 0x80, CHR 0x84], [CHR 0xE2, CHR 0x80, CHR 0x85],
      [CHR 0xE2, CHR 0x80, CHR 0x86], [CHR 0xE2, CHR 0x80, CHR 0x87],
      [CHR 0xE2, CHR 0x80, CHR 0x88], [CHR 0xE2, CHR 0x80, CHR 0x89],
      [CHR 0xE2, CHR 0x80, CHR 0x8A], [CHR 0xE2, CHR 0x80, CHR 0xA8],
      [CHR 0xE2, CHR 0x80, CHR 0xA9], [CHR 0xE2, CHR 0x80, CHR 0xAF],
      [CHR 0xE2, CHR 0x81, CHR 0x9F], [CHR 0xE3, CHR 0x80, CHR 0x80]]"

definition isSpaceRune :: "string \<Rightarrow> bool" where
  "isSpaceRune bs = (bs \<in> set spaceRunes)"

text \<open>The number of bytes of the white-space rune that starts (ends) \<open>s\<close>, or 0.\<close>

definition leadingSpace :: "string \<Rightarrow> nat" where
  "leadingSpace s =
     (if isSpaceRune (take 1 s) then 1 else if isSpaceRune (take 2 s) then 2
      else if isSpaceRune (take 3 s) then 3 else 0)"

definition trailingSpace :: "string \<Rightarrow> nat" where
  "trailingSpace s =
     (if isSpaceRune (drop (length s - 1) s) then 1
      else if isSpaceRune (drop (length s - 2) s) then 2
      else if isSpaceRune (drop (length s - 3) s) then 3 else 0)"

function TrimLeft :: "string \<Rightarrow> string" where
  "TrimLeft s = (if leadingSpace s = 0 then s else TrimLeft (drop (leadingSpace s) s))"
  by pat_completeness auto
termination
proof (relation "measure length")
  show "wf (measure length)" by simp
next
  fix s :: string
  assume "leadingSpace s \<noteq> 0"
  then have "s \<noteq> []" and "0 < leadingSpace s"
    by (auto simp: leadingSpace_def isSpaceRune_def spaceRunes_def)
  then show "(drop (leadingSpace s) s, s) \<in> measure length"
    by (cases s) auto
qed

function TrimRight :: "string \<Rightarrow> string" where
  "TrimRight s =
     (if trailingSpace s = 0 then s else TrimRight (take (length s - trailingSpace s) s))"
  by pat_completeness auto
termination
proof (relation "measure length")
  show "wf (measure length)" by simp
next
  fix s :: string
  assume "trailingSpace s \<noteq> 0"
  then have "s \<noteq> []" and "0 < trailingSpace s"
    by (auto simp: trailingSpace_def isSpaceRune_def spaceRunes_def)
  then show "(take (length s - trailingSpace s) s, s) \<in> measure length"
    by (cases s) auto
qed

declare TrimLeft.simps [simp del] TrimRight.simps [simp del]

definition TrimSpace :: "string \<Rightarrow> string" where
  "TrimSpace s = TrimRight (TrimLeft s)"

subsection \<open>UTF-8\<close>

definition byte :: "char \<Rightarrow> nat" where
  "byte c = of_char c"

definition cont :: "string \<Rightarrow> nat \<Rightarrow> bool" where
  "cont s i = (i < length s \<and> 0x80 \<le> byte (s ! i) \<and> byte (s ! i) \<le> 0xBF)"

text \<open>
  The width of the rune that \<open>utf8.DecodeRune\<close> finds at the head of a non-empty \<open>s\<close>,
  or 0 where it returns \<open>RuneError\<close> with width 1 (an encoding that is not valid).
\<close>

definition utf8_width :: "string \<Rightarrow> nat" where
  "utf8_width s =
     (case s of
        [] \<Rightarrow> 0
      | c # cs \<Rightarrow>
          (let b = byte c; b1 = (case cs of [] \<Rightarrow> 0 | c1 # _ \<Rightarrow> byte c1) in
           if b < 0x80 then 1
           else if 0xC2 \<le> b \<and> b \<le> 0xDF then (if cont s 1 then 2 else 0)
           else if b = 0xE0 then (if 0xA0 \<le> b1 \<and> b1 \<le> 0xBF \<and> cont s 2 then 3 else 0)
           else if b = 0xED then (if 0x80 \<le> b1 \<and> b1 \<le> 0x9F \<and> cont s 2 then 3 else 0)
           else if 0xE1 \<le> b \<and> b \<le> 0xEF then (if cont s 1 \<and> cont s 2 then 3 else 0)
           else if b = 0xF0 then
             (if 0x90 \<le> b1 \<and> b1 \<le> 0xBF \<and> cont s 2 \<and> cont s 3 then 4 else 0)
           else if 0xF1 \<le> b \<and> b \<le> 0xF3 then
             (if cont s 1 \<and> cont s 2 \<and> cont s 3 then 4 else 0)
           else if b = 0xF4 then
             (if 0x80 \<le> b1 \<and> b1 \<le> 0x8F \<and> cont s 2 \<and> cont s 3 then 4 else 0)
           else 0))"

text \<open>\<open>utf8.EncodeRune\<close>; a surrogate or a value above U+10FFFF is written as U+FFFD.\<close>

definition EncodeRune :: "nat \<Rightarrow> string" where
  "EncodeRune r =
     (if r < 0x80 then [char_of r]
      else if r < 0x800 then [char_of (0xC0 + r div 64), char_of (0x80 + r mod 64)]
      else if (0xD800 \<le> r \<and> r < 0xE000) \<or> 0x10FFFF < r then [CHR 0xEF, CHR 0xBF, CHR 0xBD]
      else if r < 0x10000 then
        [char_of (0xE0 + r div 4096), char_of (0x80 + r div 64 mod 64), char_of (0x80 + r mod 64)]
      else
        [char_of (0xF0 + r div 262144), char_of (0x80 + r div 4096 mod 64),
         char_of (0x80 + r div 64 mod 64), char_of (0x80 + r mod 64)])"

section \<open>encoding/json\<close>

subsection \<open>The syntax of JSON\<close>

text \<open>
  A parsed JSON value. A number keeps its literal, a string is unquoted, and each
  member of an object carries, beside its key and value, the bytes of the value as they
  stand in the input: this is what a field of type \<open>json.RawMessage\<close> receives.
\<close>

datatype json =
    JNull
  | JBool bool
  | JNumber string
  | JString string
  | JArray "json list"
  | JObject "(string \<times> string \<times> json) list"

definition isSpace :: "char \<Rightarrow> bool" where
  "isSpace c = (c = CHR 0x20 \<or> c = CHR 0x09 \<or> c = CHR 0x0D \<or> c = CHR 0x0A)"

definition skipSpace :: "string \<Rightarrow> string" where
  "skipSpace s = dropWhile isSpace s"

definition isDigit :: "char \<Rightarrow> bool" where
  "isDigit c = (0x30 \<le> byte c \<and> byte c \<le> 0x39)"

definition isHex :: "char \<Rightarrow> bool" where
  "isHex c =
     (isDigit c \<or> (0x41 \<le> byte c \<and> byte c \<le> 0x46) \<or> (0x61 \<le> byte c \<and> byte c \<le> 0x66))"

definition hexVal :: "char \<Rightarrow> nat" where
  "hexVal c =
     (if isDigit c then byte c - 0x30 else if byte c \<le> 0x46 then byte c - 0x41 + 10
      else byte c - 0x61 + 10)"

text \<open>
  The body of a string literal, from behind its opening quote up to the closing one,
  with the input that follows. An escape is a backslash and one of
  \<open>" \ / b f n r t\<close>, or \<open>u\<close> and four hexadecimal digits; a byte below \<open>0x20\<close> is
  not allowed.
\<close>

fun scanString :: "string \<Rightarrow> (string \<times> string) option" where
  "scanString [] = None"
| "scanString (c # cs) =
     (if c = CHR 0x22 then Some ([], cs)
      else if c = CHR 0x5C then
        (case cs of
           [] \<Rightarrow> None
         | e # cs' \<Rightarrow>
             if e \<in> set [CHR 0x22, CHR 0x5C, CHR ''/'', CHR ''b'', CHR ''f'', CHR ''n'', CHR ''r'',
                          CHR ''t'']
             then map_option (\<lambda>(b, r). (c # e # b, r)) (scanString cs')
             else if e = CHR ''u'' \<and> 4 \<le> length cs' \<and> list_all isHex (take 4 cs')
             then map_option (\<lambda>(b, r). (c # e # take 4 cs' @ b, r)) (scanString (drop 4 cs'))
             else None)
      else if byte c < 0x20 then None
      else map_option (\<lambda>(b, r). (c # b, r)) (scanString cs))"

text \<open>The value of \<open>\uXXXX\<close> at the head of \<open>s\<close> (\<open>getu4\<close>), if there is one.\<close>

definition getu4 :: "string \<Rightarrow> nat option" where
  "getu4 s =
     (if 6 \<le> length s \<and> s ! 0 = CHR 0x5C \<and> s ! 1 = CHR ''u'' \<and> list_all isHex (take 4 (drop 2 s))
      then Some (hexVal (s ! 2) * 4096 + hexVal (s ! 3) * 256 + hexVal (s ! 4) * 16 + hexVal (s ! 5))
      else None)"

definition escaped :: "char \<Rightarrow> char" where
  "escaped e =
     (if e = CHR ''b'' then CHR 0x08 else if e = CHR ''f'' then CHR 0x0C
      else if e = CHR ''n'' then CHR 0x0A else if e = CHR ''r'' then CHR 0x0D
      else if e = CHR ''t'' then CHR 0x09 else e)"

text \<open>
  \<open>unquote\<close> on the body of a string literal: escapes are replaced, a pair of
  \<open>\u\<close> surrogates is one rune, a lone surrogate and every byte that is not part of a
  valid UTF-8 encoding become U+FFFD. The first argument bounds the number of steps; the
  length of the body is enough, each step consuming a byte or more.
\<close>

fun unquoteBytes :: "nat \<Rightarrow> string \<Rightarrow> string" where
  "unquoteBytes 0 s = []"
| "unquoteBytes (Suc n) s =
     (case s of
        [] \<Rightarrow> []
      | c # cs \<Rightarrow>
          if c = CHR 0x5C then
            (case getu4 s of
               Some rr \<Rightarrow>
                 (if 0xD800 \<le> rr \<and> rr < 0xE000 then
                    (case getu4 (drop 6 s) of
                       Some rr1 \<Rightarrow>
                         if rr < 0xDC00 \<and> 0xDC00 \<le> rr1 \<and> rr1 < 0xE000
                         then EncodeRune ((rr - 0xD800) * 1024 + (rr1 - 0xDC00) + 0x10000)
                                @ unquoteBytes n (drop 12 s)
                         else [CHR 0xEF, CHR 0xBF, CHR 0xBD] @ unquoteBytes n (drop 6 s)
                     | None \<Rightarrow> [CHR 0xEF, CHR 0xBF, CHR 0xBD] @ unquoteBytes n (drop 6 s))
                  else EncodeRune rr @ unquoteBytes n (drop 6 s))
             | None \<Rightarrow> (case cs of [] \<Rightarrow> [] | e # cs' \<Rightarrow> escaped e # unquoteBytes n cs'))
          else if byte c < 0x80 then c # unquoteBytes n cs
          else if utf8_width s = 0 then [CHR 0xEF, CHR 0xBF, CHR 0xBD] @ unquoteBytes n cs
          else take (utf8_width s) s @ unquoteBytes n (drop (utf8_width s) s))"

definition unquote :: "string \<Rightarrow> string" where
  "unquote body = unquoteBytes (length body) body"

text \<open>
  A number literal at the head of the input: an optional minus, \<open>0\<close> or a digit from 1 to
  9 followed by digits, an optional fraction and an optional exponent.
\<close>

definition scanDigits :: "string \<Rightarrow> (string \<times> string) option" where
  "scanDigits s =
     (if takeWhile isDigit s = [] then None else Some (takeWhile isDigit s, dropWhile isDigit s))"

definition scanNumber :: "string \<Rightarrow> (string \<times> string) option" where
  "scanNumber s =
     (let (sign, s1) = (case s of c # r \<Rightarrow> if c = CHR ''-'' then ([c], r) else ([], s) | [] \<Rightarrow> ([], s))
      in case (case s1 of
                 c # r \<Rightarrow> if c = CHR ''0'' then Some ([c], r) else scanDigits s1
               | [] \<Rightarrow> None) of
           None \<Rightarrow> None
         | Some (ip, s2) \<Rightarrow>
             (case (case s2 of
                      c # r \<Rightarrow>
                        if c = CHR ''.'' then map_option (\<lambda>(ds, r'). (c # ds, r')) (scanDigits r)
                        else Some ([], s2)
                    | [] \<Rightarrow> Some ([], s2)) of
                None \<Rightarrow> None
              | Some (fp, s3) \<Rightarrow>
                  (case (case s3 of
                           c # r \<Rightarrow>
                             if c = CHR ''e'' \<or> c = CHR ''E'' then
                               (case r of
                                  c' # r' \<Rightarrow>
                                    if c' = CHR ''+'' \<or> c' = CHR ''-''
                                    then map_option (\<lambda>(ds, r''). (c # c' # ds, r'')) (scanDigits r')
                                    else map_option (\<lambda>(ds, r''). (c # ds, r'')) (scanDigits r)
                                | [] \<Rightarrow> None)
                             else Some ([], s3)
                         | [] \<Rightarrow> Some ([], s3)) of
                     None \<Rightarrow> None
                   | Some (ep, s4) \<Rightarrow> Some (sign @ ip @ fp @ ep, s4))))"

definition maxNestingDepth :: nat where
  "maxNestingDepth = 10000"

text \<open>
  One value at the head of the input, with the input behind it; \<open>None\<close> is a syntax
  error. The first argument bounds the number of nested calls (every call consumes a
  byte before the next one, so the length of the input is enough), the second is the
  number of arrays and objects open around the value.
\<close>

fun parseValue :: "nat \<Rightarrow> nat \<Rightarrow> string \<Rightarrow> (json \<times> string) option"
  and parseElements :: "nat \<Rightarrow> nat \<Rightarrow> string \<Rightarrow> (json list \<times> string) option"
  and parseMembers :: "nat \<Rightarrow> nat \<Rightarrow> string \<Rightarrow> ((string \<times> string \<times> json) list \<times> string) option"
  where
  "parseValue 0 d s = None"
| "parseValue (Suc n) d s =
     (case s of
        [] \<Rightarrow> None
      | c # cs \<Rightarrow>
          if c = CHR ''{'' then
            (if maxNestingDepth \<le> d then None
             else case skipSpace cs of
                    [] \<Rightarrow> None
                  | c' # r \<Rightarrow>
                      if c' = CHR ''}'' then Some (JObject [], r)
                      else map_option (\<lambda>(ms, r'). (JObject ms, r')) (parseMembers n (Suc d) (c' # r)))
          else if c = CHR ''['' then
            (if maxNestingDepth \<le> d then None
             else case skipSpace cs of
                    [] \<Rightarrow> None
                  | c' # r \<Rightarrow>
                      if c' = CHR '']'' then Some (JArray [], r)
                      else map_option (\<lambda>(vs, r'). (JArray vs, r')) (parseElements n (Suc d) (c' # r)))
          else if c = CHR 0x22 then
            map_option (\<lambda>(body, r). (JString (unquote body), r)) (scanString cs)
          else if take 4 s = ''null'' then Some (JNull, drop 4 s)
          else if take 4 s = ''true'' then Some (JBool True, drop 4 s)
          else if take 5 s = ''false'' then Some (JBool False, drop 5 s)
          else map_option (\<lambda>(lit, r). (JNumber lit, r)) (scanNumber s))"
| "parseElements 0 d s = None"
| "parseElements (Suc n) d s =
     (case parseValue n d s of
        None \<Rightarrow> None
      | Some (v, r) \<Rightarrow>
          (case skipSpace r of
             [] \<Rightarrow> None
           | c # r' \<Rightarrow>
               if c = CHR '','' then
                 map_option (\<lambda>(vs, r''). (v # vs, r'')) (parseElements n d (skipSpace r'))
               else if c = CHR '']'' then Some ([v], r')
               else None))"
| "parseMembers 0 d s = None"
| "parseMembers (Suc n) d s =
     (case s of
        [] \<Rightarrow> None
      | q # cs \<Rightarrow>
          if q \<noteq> CHR 0x22 then None
          else case scanString cs of
                 None \<Rightarrow> None
               | Some (key, r1) \<Rightarrow>
                   (case skipSpace r1 of
                      [] \<Rightarrow> None
                    | c # r2 \<Rightarrow>
                        if c \<noteq> CHR '':'' then None
                        else case parseValue n d (skipSpace r2) of
                               None \<Rightarrow> None
                             | Some (v, r3) \<Rightarrow>
                                 (let raw = take (length (skipSpace r2) - length r3) (skipSpace r2);
                                      m = (unquote key, raw, v)
                                  in case skipSpace r3 of
                                       [] \<Rightarrow> None
                                     | c' # r4 \<Rightarrow>
                                         if c' = CHR '','' then
                                           map_option (\<lambda>(ms, r5). (m # ms, r5))
                                             (parseMembers n d (skipSpace r4))
                                         else if c' = CHR ''}'' then Some ([m], r4)
                                         else None)))"

text \<open>
  The check of the whole input that \<open>json.Unmarshal\<close> makes before it decodes: one
  value, white space around it and nothing else.
\<close>

definition parse :: "string \<Rightarrow> error + json" where
  "parse data =
     (case parseValue (Suc (length data)) 0 (skipSpace data) of
        None \<Rightarrow> Inl SyntaxError
      | Some (v, r) \<Rightarrow> if skipSpace r = [] then Inr v else Inl SyntaxError)"

subsection \<open>Decoding into Go values\<close>

text \<open>
  \<open>json.Unmarshal\<close> stores a JSON value into a Go value that exists already, guided by
  its type. A decoder takes the JSON value and the old Go value and returns the new
  one, or the first \<open>UnmarshalTypeError\<close>. JSON \<open>null\<close> leaves a string, a number, a
  boolean and a struct as they are and sets a pointer or a slice to nil.
\<close>

definition valueKind :: "json \<Rightarrow> string" where
  "valueKind v =
     (case v of
        JNull \<Rightarrow> ''null'' | JBool _ \<Rightarrow> ''bool'' | JNumber _ \<Rightarrow> ''number''
      | JString _ \<Rightarrow> ''string'' | JArray _ \<Rightarrow> ''array'' | JObject _ \<Rightarrow> ''object'')"

definition store :: "('a \<Rightarrow> 's) \<Rightarrow> error + 'a \<Rightarrow> error + 's" where
  "store f r = (case r of Inl err \<Rightarrow> Inl err | Inr x \<Rightarrow> Inr (f x))"

definition decString :: "json \<Rightarrow> string \<Rightarrow> error + string" where
  "decString v old =
     (case v of
        JString s \<Rightarrow> Inr s
      | JNull \<Rightarrow> Inr old
      | _ \<Rightarrow> Inl (UnmarshalTypeError (valueKind v)))"

definition decBool :: "json \<Rightarrow> bool \<Rightarrow> error + bool" where
  "decBool v old =
     (case v of
        JBool b \<Rightarrow> Inr b
      | JNull \<Rightarrow> Inr old
      | _ \<Rightarrow> Inl (UnmarshalTypeError (valueKind v)))"

definition decimal :: "string \<Rightarrow> int" where
  "decimal ds = foldl (\<lambda>n c. 10 * n + int (byte c - 0x30)) 0 ds"

text \<open>
  \<open>strconv.ParseInt(s, 10, 64)\<close> on a number literal of JSON: digits behind an
  optional minus, in the range of \<open>int64\<close> (the \<open>int\<close> of a 64-bit platform).
\<close>

definition ParseInt :: "string \<Rightarrow> int option" where
  "ParseInt s =
     (case s of
        [] \<Rightarrow> None
      | c # r \<Rightarrow>
          if c = CHR ''-'' then
            (if r \<noteq> [] \<and> list_all isDigit r \<and> decimal r \<le> 2 ^ 63
             then Some (- decimal r) else None)
          else if list_all isDigit s \<and> decimal s < 2 ^ 63 then Some (decimal s)
          else None)"

definition decInt :: "json \<Rightarrow> int \<Rightarrow> error + int" where
  "decInt v old =
     (case v of
        JNumber lit \<Rightarrow>
          (case ParseInt lit of
             Some i \<Rightarrow> Inr i
           | None \<Rightarrow> Inl (UnmarshalTypeError (''number '' @ lit)))
      | JNull \<Rightarrow> Inr old
      | _ \<Rightarrow> Inl (UnmarshalTypeError (valueKind v)))"

definition decPointer ::
  "(json \<Rightarrow> 'a \<Rightarrow> error + 'a) \<Rightarrow> 'a \<Rightarrow> json \<Rightarrow> 'a option \<Rightarrow> error + 'a option" where
  "decPointer dec zero v old =
     (case v of
        JNull \<Rightarrow> Inr None
      | _ \<Rightarrow> store Some (dec v (case old of None \<Rightarrow> zero | Some x \<Rightarrow> x)))"

fun decElements :: "(json \<Rightarrow> 'a \<Rightarrow> error + 'a) \<Rightarrow> 'a \<Rightarrow> json list \<Rightarrow> error + 'a list" where
  "decElements dec zero [] = Inr []"
| "decElements dec zero (v # vs) =
     (case dec v zero of
        Inl err \<Rightarrow> Inl err
      | Inr x \<Rightarrow> store ((#) x) (decElements dec zero vs))"

definition decSlice ::
  "(json \<Rightarrow> 'a \<Rightarrow> error + 'a) \<Rightarrow> 'a \<Rightarrow> json \<Rightarrow> 'a list \<Rightarrow> error + 'a list" where
  "decSlice dec zero v old =
     (case v of
        JNull \<Rightarrow> Inr []
      | JArray vs \<Rightarrow> decElements dec zero vs
      | _ \<Rightarrow> Inl (UnmarshalTypeError (valueKind v)))"

text \<open>
  The key of a member selects the field whose name is equal to it under Unicode simple
  case folding. The names of the fields here are ASCII, so a key matches a name when
  they agree after this folding: a lower-case ASCII letter becomes upper case, U+017F
  becomes \<open>S\<close> and U+212A becomes \<open>K\<close>, these being the only runes outside ASCII that fold
  to an ASCII letter. No struct here has two names that agree after folding, so the
  preference for an exact match changes nothing.
\<close>

fun foldName :: "string \<Rightarrow> string" where
  "foldName [] = []"
| "foldName (c # cs) =
     (if take 2 (c # cs) = [CHR 0xC5, CHR 0xBF] then CHR ''S'' # foldName (drop 1 cs)
      else if take 3 (c # cs) = [CHR 0xE2, CHR 0x84, CHR 0xAA] then CHR ''K'' # foldName (drop 2 cs)
      else if 0x61 \<le> byte c \<and> byte c \<le> 0x7A then char_of (byte c - 0x20) # foldName cs
      else c # foldName cs)"

text \<open>
  A struct is decoded member by member, in the order of the input; \<open>field\<close> stores one
  member (folded key, bytes of the value, value) into the struct and leaves the struct
  as it is when no field has that name.
\<close>

fun decMembers ::
  "(string \<Rightarrow> string \<Rightarrow> json \<Rightarrow> 's \<Rightarrow> error + 's) \<Rightarrow> (string \<times> string \<times> json) list \<Rightarrow> 's
     \<Rightarrow> error + 's" where
  "decMembers field [] s = Inr s"
| "decMembers field ((k, raw, v) # ms) s =
     (case field (foldName k) raw v s of
        Inl err \<Rightarrow> Inl err
      | Inr s' \<Rightarrow> decMembers field ms s')"

definition decStruct ::
  "(string \<Rightarrow> string \<Rightarrow> json \<Rightarrow> 's \<Rightarrow> error + 's) \<Rightarrow> json \<Rightarrow> 's \<Rightarrow> error + 's" where
  "decStruct field v old =
     (case v of
        JObject ms \<Rightarrow> decMembers field ms old
      | JNull \<Rightarrow> Inr old
      | _ \<Rightarrow> Inl (UnmarshalTypeError (valueKind v)))"

text \<open>\<open>json.Unmarshal(data, &v)\<close> for a \<open>v\<close> with the decoder \<open>dec\<close>.\<close>

definition Unmarshal :: "(json \<Rightarrow> 'a \<Rightarrow> error + 'a) \<Rightarrow> string \<Rightarrow> 'a \<Rightarrow> error + 'a" where
  "Unmarshal dec data v = (case parse data of Inl err \<Rightarrow> Inl err | Inr j \<Rightarrow> dec j v)"

section \<open>Events and items\<close>

record Usage =
  InputTokens :: int
  CachedInputTokens :: int
  OutputTokens :: int

datatype ThreadError = ThreadError (ThreadError_Message: string)

datatype FileUpdateChange = FileUpdateChange string string

datatype McpContentBlock = McpContentBlock string string string

datatype McpToolResult = McpToolResult "McpContentBlock list" string

datatype McpToolError = McpToolError string

datatype TodoItem = TodoItem string bool

text \<open>
  The interface \<open>ThreadItem\<close> with its nine implementations; the arguments of each
  constructor are the fields of the Go struct in their order. A \<open>json.RawMessage\<close> is the
  byte string it holds, a nil pointer is \<open>None\<close>, a nil slice is the empty list.
\<close>

datatype ThreadItem =
    AgentMessageItem string string (Text: string)
  | ReasoningItem string string string
  | CommandExecutionItem string string string string "int option" string
  | FileChangeItem string string "FileUpdateChange list" string
  | McpToolCallItem string string string string string "McpToolResult option"
      "McpToolError option" string
  | WebSearchItem string string string
  | TodoListItem string string "TodoItem list"
  | ErrorItem string string string
  | UnknownItem (ItemType: string) (Raw: string)

definition EventThreadStarted :: string where "EventThreadStarted = ''thread.started''"
definition EventTurnCompleted :: string where "EventTurnCompleted = ''turn.completed''"
definition EventTurnFailed :: string where "EventTurnFailed = ''turn.failed''"
definition EventItemStarted :: string where "EventItemStarted = ''item.started''"
definition EventItemUpdated :: string where "EventItemUpdated = ''item.updated''"
definition EventItemCompleted :: string where "EventItemCompleted = ''item.completed''"
definition EventError :: string where "EventError = ''error''"

record ThreadEvent =
  Type :: string
  ThreadID :: string
  Usage :: "Usage option"
  Error :: "ThreadError option"
  Item :: "ThreadItem option"
  Message :: string
  rawItem :: string

definition ItemAgentMessage :: string where "ItemAgentMessage = ''agent_message''"
definition ItemReasoning :: string where "ItemReasoning = ''reasoning''"
definition ItemCommandExecution :: string where "ItemCommandExecution = ''command_execution''"
definition ItemFileChange :: string where "ItemFileChange = ''file_change''"
definition ItemMcpToolCall :: string where "ItemMcpToolCall = ''mcp_tool_call''"
definition ItemWebSearch :: string where "ItemWebSearch = ''web_search''"
definition ItemTodoList :: string where "ItemTodoList = ''todo_list''"
definition ItemError :: string where "ItemError = ''error''"

subsection \<open>The fields of the structs, by their JSON names\<close>

definition Usage_field :: "string \<Rightarrow> string \<Rightarrow> json \<Rightarrow> Usage \<Rightarrow> error + Usage" where
  "Usage_field k raw v u =
     (if k = foldName ''input_tokens'' then
        store (\<lambda>x. u\<lparr>InputTokens := x\<rparr>) (decInt v (InputTokens u))
      else if k = foldName ''cached_input_tokens'' then
        store (\<lambda>x. u\<lparr>CachedInputTokens := x\<rparr>) (decInt v (CachedInputTokens u))
      else if k = foldName ''output_tokens'' then
        store (\<lambda>x. u\<lparr>OutputTokens := x\<rparr>) (decInt v (OutputTokens u))
      else Inr u)"

definition ThreadError_field :: "string \<Rightarrow> string \<Rightarrow> json \<Rightarrow> ThreadError \<Rightarrow> error + ThreadError" where
  "ThreadError_field k raw v e =
     (if k = foldName ''message'' then store ThreadError (decString v (ThreadError_Message e))
      else Inr e)"

text \<open>
  The struct \<open>aux\<close> of \<open>(*ThreadEvent).UnmarshalJSON\<close>: the fields of \<open>ThreadEvent\<close> that
  have a JSON name, and the field \<open>Item\<close> of type \<open>json.RawMessage\<close> named \<open>item\<close>, kept
  here in \<open>rawItem\<close>, where \<open>UnmarshalJSON\<close> copies it.
\<close>

definition aux_field :: "string \<Rightarrow> string \<Rightarrow> json \<Rightarrow> ThreadEvent \<Rightarrow> error + ThreadEvent" where
  "aux_field k raw v e =
     (if k = foldName ''type'' then store (\<lambda>x. e\<lparr>Type := x\<rparr>) (decString v (Type e))
      else if k = foldName ''thread_id'' then
        store (\<lambda>x. e\<lparr>ThreadID := x\<rparr>) (decString v (ThreadID e))
      else if k = foldName ''usage'' then
        store (\<lambda>x. e\<lparr>Usage := x\<rparr>)
          (decPointer (decStruct Usage_field)
             \<lparr>InputTokens = 0, CachedInputTokens = 0, OutputTokens = 0\<rparr> v (Usage e))
      else if k = foldName ''error'' then
        store (\<lambda>x. e\<lparr>Error := x\<rparr>)
          (decPointer (decStruct ThreadError_field) (ThreadError []) v (Error e))
      else if k = foldName ''message'' then
        store (\<lambda>x. e\<lparr>Message := x\<rparr>) (decString v (Message e))
      else if k = foldName ''item'' then Inr (e\<lparr>rawItem := raw\<rparr>)
      else Inr e)"

definition discriminator_field :: "string \<Rightarrow> string \<Rightarrow> json \<Rightarrow> string \<Rightarrow> error + string" where
  "discriminator_field k raw v ty = (if k = foldName ''type'' then decString v ty else Inr ty)"

definition AgentMessageItem_field ::
  "string \<Rightarrow> string \<Rightarrow> json \<Rightarrow> ThreadItem \<Rightarrow> error + ThreadItem" where
  "AgentMessageItem_field k raw v item =
     (case item of
        AgentMessageItem i ty text \<Rightarrow>
          if k = foldName ''id'' then store (\<lambda>x. AgentMessageItem x ty text) (decString v i)
          else if k = foldName ''type'' then store (\<lambda>x. AgentMessageItem i x text) (decString v ty)
          else if k = foldName ''text'' then store (\<lambda>x. AgentMessageItem i ty x) (decString v text)
          else Inr item
      | _ \<Rightarrow> Inr item)"

definition ReasoningItem_field ::
  "string \<Rightarrow> string \<Rightarrow> json \<Rightarrow> ThreadItem \<Rightarrow> error + ThreadItem" where
  "ReasoningItem_field k raw v item =
     (case item of
        ReasoningItem i ty text \<Rightarrow>
          if k = foldName ''id'' then store (\<lambda>x. ReasoningItem x ty text) (decString v i)
          else if k = foldName ''type'' then store (\<lambda>x. ReasoningItem i x text) (decString v ty)
          else if k = foldName ''text'' then store (\<lambda>x. ReasoningItem i ty x) (decString v text)
          else Inr item
      | _ \<Rightarrow> Inr item)"

definition CommandExecutionItem_field ::
  "string \<Rightarrow> string \<Rightarrow> json \<Rightarrow> ThreadItem \<Rightarrow> error + ThreadItem" where
  "CommandExecutionItem_field k raw v item =
     (case item of
        CommandExecutionItem i ty cmd out code st \<Rightarrow>
          if k = foldName ''id'' then
            store (\<lambda>x. CommandExecutionItem x ty cmd out code st) (decString v i)
          else if k = foldName ''type'' then
            store (\<lambda>x. CommandExecutionItem i x cmd out code st) (decString v ty)
          else if k = foldName ''command'' then
            store (\<lambda>x. CommandExecutionItem i ty x out code st) (decString v cmd)
          else if k = foldName ''aggregated_output'' then
            store (\<lambda>x. CommandExecutionItem i ty cmd x code st) (decString v out)
          else if k = foldName ''exit_code'' then
            store (\<lambda>x. CommandExecutionItem i ty cmd out x st) (decPointer decInt 0 v code)
          else if k = foldName ''status'' then
            store (\<lambda>x. CommandExecutionItem i ty cmd out code x) (decString v st)
          else Inr item
      | _ \<Rightarrow> Inr item)"

definition FileUpdateChange_field ::
  "string \<Rightarrow> string \<Rightarrow> json \<Rightarrow> FileUpdateChange \<Rightarrow> error + FileUpdateChange" where
  "FileUpdateChange_field k raw v c =
     (case c of
        FileUpdateChange path kind \<Rightarrow>
          if k = foldName ''path'' then store (\<lambda>x. FileUpdateChange x kind) (decString v path)
          else if k = foldName ''kind'' then store (\<lambda>x. FileUpdateChange path x) (decString v kind)
          else Inr c)"

definition FileChangeItem_field ::
  "string \<Rightarrow> string \<Rightarrow> json \<Rightarrow> ThreadItem \<Rightarrow> error + ThreadItem" where
  "FileChangeItem_field k raw v item =
     (case item of
        FileChangeItem i ty changes st \<Rightarrow>
          if k = foldName ''id'' then store (\<lambda>x. FileChangeItem x ty changes st) (decString v i)
          else if k = foldName ''type'' then
            store (\<lambda>x. FileChangeItem i x changes st) (decString v ty)
          else if k = foldName ''changes'' then
            store (\<lambda>x. FileChangeItem i ty x st)
              (decSlice (decStruct FileUpdateChange_field) (FileUpdateChange [] []) v changes)
          else if k = foldName ''status'' then
            store (\<lambda>x. FileChangeItem i ty changes x) (decString v st)
          else Inr item
      | _ \<Rightarrow> Inr item)"

definition McpContentBlock_field ::
  "string \<Rightarrow> string \<Rightarrow> json \<Rightarrow> McpContentBlock \<Rightarrow> error + McpContentBlock" where
  "McpContentBlock_field k raw v b =
     (case b of
        McpContentBlock ty text data \<Rightarrow>
          if k = foldName ''type'' then store (\<lambda>x. McpContentBlock x text data) (decString v ty)
          else if k = foldName ''text'' then
            store (\<lambda>x. McpContentBlock ty x data) (decString v text)
          else if k = foldName ''data'' then Inr (McpContentBlock ty text raw)
          else Inr b)"

definition McpToolResult_field ::
  "string \<Rightarrow> string \<Rightarrow> json \<Rightarrow> McpToolResult \<Rightarrow> error + McpToolResult" where
  "McpToolResult_field k raw v r =
     (case r of
        McpToolResult content structured \<Rightarrow>
          if k = foldName ''content'' then
            store (\<lambda>x. McpToolResult x structured)
              (decSlice (decStruct McpContentBlock_field) (McpContentBlock [] [] []) v content)
          else if k = foldName ''structured_content'' then Inr (McpToolResult content raw)
          else Inr r)"

definition McpToolError_field ::
  "string \<Rightarrow> string \<Rightarrow> json \<Rightarrow> McpToolError \<Rightarrow> error + McpToolError" where
  "McpToolError_field k raw v e =
     (case e of
        McpToolError msg \<Rightarrow>
          if k = foldName ''message'' then store McpToolError (decString v msg) else Inr e)"

definition McpToolCallItem_field ::
  "string \<Rightarrow> string \<Rightarrow> json \<Rightarrow> ThreadItem \<Rightarrow> error + ThreadItem" where
  "McpToolCallItem_field k raw v item =
     (case item of
        McpToolCallItem i ty server tool args res err st \<Rightarrow>
          if k = foldName ''id'' then
            store (\<lambda>x. McpToolCallItem x ty server tool args res err st) (decString v i)
          else if k = foldName ''type'' then
            store (\<lambda>x. McpToolCallItem i x server tool args res err st) (decString v ty)
          else if k = foldName ''server'' then
            store (\<lambda>x. McpToolCallItem i ty x tool args res err st) (decString v server)
          else if k = foldName ''tool'' then
            store (\<lambda>x. McpToolCallItem i ty server x args res err st) (decString v tool)
          else if k = foldName ''arguments'' then
            Inr (McpToolCallItem i ty server tool raw res err st)
          else if k = foldName ''result'' then
            store (\<lambda>x. McpToolCallItem i ty server tool args x err st)
              (decPointer (decStruct McpToolResult_field) (McpToolResult [] []) v res)
          else if k = foldName ''error'' then
            store (\<lambda>x. McpToolCallItem i ty server tool args res x st)
              (decPointer (decStruct McpToolError_field) (McpToolError []) v err)
          else if k = foldName ''status'' then
            store (\<lambda>x. McpToolCallItem i ty server tool args res err x) (decString v st)
          else Inr item
      | _ \<Rightarrow> Inr item)"

definition WebSearchItem_field ::
  "string \<Rightarrow> string \<Rightarrow> json \<Rightarrow> ThreadItem \<Rightarrow> error + ThreadItem" where
  "WebSearchItem_field k raw v item =
     (case item of
        WebSearchItem i ty query \<Rightarrow>
          if k = foldName ''id'' then store (\<lambda>x. WebSearchItem x ty query) (decString v i)
          else if k = foldName ''type'' then store (\<lambda>x. WebSearchItem i x query) (decString v ty)
          else if k = foldName ''query'' then store (\<lambda>x. WebSearchItem i ty x) (decString v query)
          else Inr item
      | _ \<Rightarrow> Inr item)"

definition TodoItem_field :: "string \<Rightarrow> string \<Rightarrow> json \<Rightarrow> TodoItem \<Rightarrow> error + TodoItem" where
  "TodoItem_field k raw v t =
     (case t of
        TodoItem text completed \<Rightarrow>
          if k = foldName ''text'' then store (\<lambda>x. TodoItem x completed) (decString v text)
          else if k = foldName ''completed'' then store (\<lambda>x. TodoItem text x) (decBool v completed)
          else Inr t)"

definition TodoListItem_field ::
  "string \<Rightarrow> string \<Rightarrow> json \<Rightarrow> ThreadItem \<Rightarrow> error + ThreadItem" where
  "TodoListItem_field k raw v item =
     (case item of
        TodoListItem i ty todos \<Rightarrow>
          if k = foldName ''id'' then store (\<lambda>x. TodoListItem x ty todos) (decString v i)
          else if k = foldName ''type'' then store (\<lambda>x. TodoListItem i x todos) (decString v ty)
          else if k = foldName ''items'' then
            store (\<lambda>x. TodoListItem i ty x)
              (decSlice (decStruct TodoItem_field) (TodoItem [] False) v todos)
          else Inr item
      | _ \<Rightarrow> Inr item)"

definition ErrorItem_field ::
  "string \<Rightarrow> string \<Rightarrow> json \<Rightarrow> ThreadItem \<Rightarrow> error + ThreadItem" where
  "ErrorItem_field k raw v item =
     (case item of
        ErrorItem i ty msg \<Rightarrow>
          if k = foldName ''id'' then store (\<lambda>x. ErrorItem x ty msg) (decString v i)
          else if k = foldName ''type'' then store (\<lambda>x. ErrorItem i x msg) (decString v ty)
          else if k = foldName ''message'' then store (\<lambda>x. ErrorItem i ty x) (decString v msg)
          else Inr item
      | _ \<Rightarrow> Inr item)"

subsection \<open>unmarshalThreadItem and UnmarshalJSON\<close>

text \<open>
  \<open>unmarshalThreadItem\<close>: the discriminator is decoded first, then the \<open>switch\<close> on it,
  in the order of its cases.
\<close>

definition unmarshalThreadItem :: "string \<Rightarrow> error + ThreadItem" where
  "unmarshalThreadItem data =
     (case Unmarshal (decStruct discriminator_field) data [] of
        Inl err \<Rightarrow> Inl err
      | Inr ty \<Rightarrow>
          if ty = ItemAgentMessage then
            Unmarshal (decStruct AgentMessageItem_field) data (AgentMessageItem [] [] [])
          else if ty = ItemReasoning then
            Unmarshal (decStruct ReasoningItem_field) data (ReasoningItem [] [] [])
          else if ty = ItemCommandExecution then
            Unmarshal (decStruct CommandExecutionItem_field) data
              (CommandExecutionItem [] [] [] [] None [])
          else if ty = ItemFileChange then
            Unmarshal (decStruct FileChangeItem_field) data (FileChangeItem [] [] [] [])
          else if ty = ItemMcpToolCall then
            Unmarshal (decStruct McpToolCallItem_field) data
              (McpToolCallItem [] [] [] [] [] None None [])
          else if ty = ItemWebSearch then
            Unmarshal (decStruct WebSearchItem_field) data (WebSearchItem [] [] [])
          else if ty = ItemTodoList then
            Unmarshal (decStruct TodoListItem_field) data (TodoListItem [] [] [])
          else if ty = ItemError then
            Unmarshal (decStruct ErrorItem_field) data (ErrorItem [] [] [])
          else if ty = [] then Inl (ErrorString ''thread item missing type discriminator'')
          else Inr (UnknownItem ty data))"

text \<open>
  \<open>(*ThreadEvent).UnmarshalJSON\<close>, and with it \<open>json.Unmarshal(trimmed, &event)\<close> for an
  \<open>event\<close> that is the zero \<open>ThreadEvent\<close>.
\<close>

definition zeroEvent :: ThreadEvent where
  "zeroEvent =
     \<lparr>Type = [], ThreadID = [], Usage = None, Error = None, Item = None, Message = [],
      rawItem = []\<rparr>"

definition UnmarshalJSON :: "string \<Rightarrow> error + ThreadEvent" where
  "UnmarshalJSON data =
     (case Unmarshal (decStruct aux_field) data zeroEvent of
        Inl err \<Rightarrow> Inl err
      | Inr e \<Rightarrow>
          if 0 < length (rawItem e) then
            (case unmarshalThreadItem (rawItem e) of
               Inl err \<Rightarrow> Inl (Errorf ''decode thread item: %w'' err [])
             | Inr item \<Rightarrow> Inr (e\<lparr>Item := Some item\<rparr>))
          else Inr e)"

section \<open>exec.go: awaiting the process\<close>

text \<open>
  What the three concurrent parts of \<open>(*Exec).Run\<close> leave behind once the process has
  terminated: the value of \<open>cmd.Wait()\<close>, the error of \<open>io.WriteString(stdin, args.Input)\<close>
  sent on \<open>writeErrCh\<close>, and the bytes copied from the stderr pipe into \<open>stderrBuf\<close> by
  the time \<open>stderrDone\<close> is closed.
\<close>

record process =
  cmd_Wait :: "error option"
  writeErr :: "error option"
  stderrBuf :: string

text \<open>The closure \<open>waitFn\<close> of \<open>(*Exec).Run\<close>, in the order of its statements.\<close>

definition waitFn :: "process \<Rightarrow> error option" where
  "waitFn p =
     (case writeErr p of
        Some we \<Rightarrow> Some (Errorf ''write to codex stdin: %w'' we [])
      | None \<Rightarrow>
          (case cmd_Wait p of
             Some err \<Rightarrow>
               (case errors_As_ExitError err of
                  Some code \<Rightarrow> Some (ErrExecFailed code (TrimSpace (stderrBuf p)) (Some err))
                | None \<Rightarrow> Some (Errorf ''codex exec failed: %w'' err []))
           | None \<Rightarrow> None))"

text \<open>
  The buffered reader on the stdout pipe: the bytes that the pipe still delivers, and
  the error it returns behind them (\<open>io.EOF\<close> at the end of the output, another error
  when a read fails).
\<close>

record Reader =
  pending :: string
  closing :: error

record ExecStream =
  Stdout :: Reader
  proc :: process

text \<open>\<open>(*ExecStream).Wait\<close>: the value of \<open>waitFn\<close>, computed once.\<close>

definition ExecStream_Wait :: "ExecStream \<Rightarrow> error option" where
  "ExecStream_Wait s = waitFn (proc s)"

text \<open>The bytes up to and including the first line feed, and the bytes behind it.\<close>

fun cut :: "string \<Rightarrow> (string \<times> string) option" where
  "cut [] = None"
| "cut (c # cs) =
     (if c = CHR 0x0A then Some ([c], cs)
      else case cut cs of None \<Rightarrow> None | Some (line, rest) \<Rightarrow> Some (c # line, rest))"

text \<open>
  \<open>reader.ReadBytes('\n')\<close>: a line with its delimiter and no error, or the bytes that
  are left together with the error of the pipe.
\<close>

definition ReadBytes :: "Reader \<Rightarrow> string \<times> error option \<times> Reader" where
  "ReadBytes rd =
     (case cut (pending rd) of
        Some (line, rest) \<Rightarrow> (line, None, rd\<lparr>pending := rest\<rparr>)
      | None \<Rightarrow> (pending rd, Some (closing rd), rd\<lparr>pending := []\<rparr>))"

section \<open>Thread: the identity of the session\<close>

text \<open>The field \<open>id\<close> of a \<open>Thread\<close>; its other fields are options that no turn changes.\<close>

record Thread =
  Thread_id :: string

definition ID :: "Thread \<Rightarrow> string" where
  "ID t = Thread_id t"

definition setID :: "Thread \<Rightarrow> string \<Rightarrow> Thread" where
  "setID t i = (if i = [] then t else t\<lparr>Thread_id := i\<rparr>)"

definition currentID :: "Thread \<Rightarrow> string" where
  "currentID t = Thread_id t"

definition StartThread :: Thread where
  "StartThread = \<lparr>Thread_id = []\<rparr>"

definition ResumeThread :: "string \<Rightarrow> Thread" where
  "ResumeThread i = \<lparr>Thread_id = i\<rparr>"

section \<open>runStreamedInternal: the background task\<close>

text \<open>
  The task reads the context at two places of each iteration: \<open>ctx.Err()\<close> at its head,
  and the \<open>select\<close> between the send on \<open>events\<close> and \<open>ctx.Done()\<close>. What it finds there
  depends on the consumer and on the caller, so it is an input of the model: for each
  iteration the value of \<open>ctx.Err()\<close> at its head and the case of the \<open>select\<close> that runs
  (for \<open>Done\<close>, with the value of \<open>ctx.Err()\<close> read in that case). A schedule that has
  run out stands for a context that is not done and a consumer that receives.
\<close>

datatype select_case = Send | Done error

type_synonym schedule = "(error option \<times> select_case) list"

definition atHead :: "schedule \<Rightarrow> error option" where
  "atHead sched = (case sched of [] \<Rightarrow> None | (e, _) # _ \<Rightarrow> e)"

definition atSelect :: "schedule \<Rightarrow> select_case" where
  "atSelect sched = (case sched of [] \<Rightarrow> Send | (_, c) # _ \<Rightarrow> c)"

text \<open>Lines 210 to 212: the identity is stored before the event is sent.\<close>

definition observe :: "Thread \<Rightarrow> ThreadEvent \<Rightarrow> Thread" where
  "observe t event =
     (if Type event = EventThreadStarted \<and> ThreadID event \<noteq> [] then setID t (ThreadID event)
      else t)"

text \<open>
  The end of the loop body, from \<open>if readErr != nil\<close> on: \<open>Some runErr\<close> when the loop
  is left with that \<open>runErr\<close>, \<open>None\<close> when the next iteration starts.
\<close>

definition afterLine :: "error option \<Rightarrow> error option \<Rightarrow> error option option" where
  "afterLine runErr readErr =
     (case readErr of
        Some re \<Rightarrow>
          if errors_Is re EOF then Some runErr
          else if runErr = None then Some (Some (Errorf ''read codex output: %w'' re []))
          else Some runErr
      | None \<Rightarrow> if runErr \<noteq> None then Some runErr else None)"

text \<open>
  One iteration behind the check of \<open>ctx.Err()\<close>: the events sent, the thread, the reader
  and how the body ends.
\<close>

record iteration =
  sent1 :: "ThreadEvent list"
  thread1 :: Thread
  reader1 :: Reader
  ended :: "error option option"

definition body :: "select_case \<Rightarrow> Thread \<Rightarrow> Reader \<Rightarrow> iteration" where
  "body sel t rd =
     (case ReadBytes rd of
        (line, readErr, rd') \<Rightarrow>
          (let trimmed = TrimSpace line in
           if 0 < length trimmed then
             (case UnmarshalJSON trimmed of
                Inl err \<Rightarrow>
                  \<lparr>sent1 = [], thread1 = t, reader1 = rd',
                   ended = Some (Some (Errorf ''parse codex event: %w'' err []))\<rparr>
              | Inr event \<Rightarrow>
                  (case sel of
                     Send \<Rightarrow>
                       \<lparr>sent1 = [event], thread1 = observe t event, reader1 = rd',
                        ended = afterLine None readErr\<rparr>
                   | Done ctxErr \<Rightarrow>
                       \<lparr>sent1 = [], thread1 = observe t event, reader1 = rd',
                        ended = afterLine (Some ctxErr) readErr\<rparr>))
           else \<lparr>sent1 = [], thread1 = t, reader1 = rd', ended = afterLine None readErr\<rparr>))"

text \<open>What the loop leaves: the events sent, \<open>runErr\<close>, the thread and the reader.\<close>

record loop_result =
  sent :: "ThreadEvent list"
  runErr :: "error option"
  thread :: Thread
  reader :: Reader

function readLoop :: "schedule \<Rightarrow> Thread \<Rightarrow> Reader \<Rightarrow> loop_result" where
  "readLoop sched t rd =
     (if atHead sched \<noteq> None then \<lparr>sent = [], runErr = atHead sched, thread = t, reader = rd\<rparr>
      else if ended (body (atSelect sched) t rd) \<noteq> None then
        \<lparr>sent = sent1 (body (atSelect sched) t rd),
         runErr = the (ended (body (atSelect sched) t rd)),
         thread = thread1 (body (atSelect sched) t rd),
         reader = reader1 (body (atSelect sched) t rd)\<rparr>
      else
        (let r = readLoop (tl sched) (thread1 (body (atSelect sched) t rd))
                   (reader1 (body (atSelect sched) t rd))
         in r\<lparr>sent := sent1 (body (atSelect sched) t rd) @ sent r\<rparr>))"
  by pat_completeness auto
termination
proof (relation "measure (\<lambda>(sched, t, rd). length (pending rd))")
  show "wf (measure (\<lambda>(sched, t, rd). length (pending rd)))" by simp
next
  fix sched :: schedule and t :: Thread and rd :: Reader
  assume "\<not> ended (body (atSelect sched) t rd) \<noteq> None"
  then have e: "ended (body (atSelect sched) t rd) = None" by simp
  have c: "cut s = Some (line, rest) \<Longrightarrow> length rest < length s" for s line rest
    by (induction s arbitrary: line) (auto split: if_splits option.splits)
  obtain line rest where "cut (pending rd) = Some (line, rest)"
    and "reader1 (body (atSelect sched) t rd) = rd\<lparr>pending := rest\<rparr>"
    using e
    by (cases "cut (pending rd)")
      (auto simp: body_def ReadBytes_def afterLine_def Let_def
        split: if_splits sum.splits select_case.splits)
  then show "((tl sched, thread1 (body (atSelect sched) t rd),
               reader1 (body (atSelect sched) t rd)), sched, t, rd)
             \<in> measure (\<lambda>(sched, t, rd). length (pending rd))"
    using c by auto
qed

declare readLoop.simps [simp del]

text \<open>
  The task started by \<open>runStreamedInternal\<close>, from \<open>reader := bufio.NewReader(stdout)\<close> to
  \<open>errCh <- runErr\<close>: the events it sent before it closed \<open>events\<close>, the values it sent on
  \<open>errCh\<close>, the thread and the reader.
\<close>

record task =
  events :: "ThreadEvent list"
  errCh :: "error option list"
  thread' :: Thread
  reader' :: Reader

definition reconcile :: "error option \<Rightarrow> error option \<Rightarrow> error option" where
  "reconcile rerr werr =
     (case rerr of
        None \<Rightarrow> werr
      | Some r \<Rightarrow>
          (case werr of
             Some w \<Rightarrow>
               if \<not> errors_Is r w then Some (Errorf ''%w; wait error: %v'' r [w]) else Some r
           | None \<Rightarrow> Some r))"

definition runTask :: "schedule \<Rightarrow> Thread \<Rightarrow> ExecStream \<Rightarrow> task" where
  "runTask sched t stream =
     (let r = readLoop sched t (Stdout stream);
          waitErr = ExecStream_Wait stream
      in \<lparr>events = sent r, errCh = [reconcile (runErr r) waitErr], thread' = thread r,
          reader' = reader r\<rparr>)"

section \<open>Thread.Run: aggregating a turn\<close>

datatype Turn = Turn (Items: "ThreadItem list") (FinalResponse: string) (Turn_Usage: "Usage option")

text \<open>
  A \<open>StreamedTurn\<close> as its consumer sees it: the events that the channel \<open>Events\<close> yields
  until it is closed, and the values that the channel read by \<open>waitFn\<close> holds.
\<close>

record StreamedTurn =
  Events :: "ThreadEvent list"
  waitCh :: "error option list"

text \<open>
  \<open>(*StreamedTurn).Wait\<close>: the receive \<open><-errCh\<close>. \<open>None\<close> is a receive that blocks for
  ever, on a channel that never holds a value.
\<close>

definition StreamedTurn_Wait :: "StreamedTurn \<Rightarrow> error option option" where
  "StreamedTurn_Wait s = (case waitCh s of [] \<Rightarrow> None | e # _ \<Rightarrow> Some e)"

text \<open>
  \<open>runStreamedInternal\<close>: \<open>started\<close> is the outcome of its part before the task, either
  the error of \<open>createOutputSchemaFile\<close>, \<open>normalizeInput\<close> or \<open>t.exec.Run\<close>, or the stream.
\<close>

definition runStreamedInternal ::
  "schedule \<Rightarrow> Thread \<Rightarrow> error + ExecStream \<Rightarrow> Thread \<times> (error + StreamedTurn)" where
  "runStreamedInternal sched t started =
     (case started of
        Inl err \<Rightarrow> (t, Inl err)
      | Inr stream \<Rightarrow>
          (let k = runTask sched t stream
           in (thread' k, Inr \<lparr>Events = events k, waitCh = errCh k\<rparr>)))"

text \<open>The four variables of \<open>Run\<close> that its loop assigns.\<close>

record Run_vars =
  items :: "ThreadItem list"
  finalResponse :: string
  usage :: "Usage option"
  turnFailure :: "ThreadError option"

definition is_AgentMessageItem :: "ThreadItem \<Rightarrow> bool" where
  "is_AgentMessageItem item = (case item of AgentMessageItem _ _ _ \<Rightarrow> True | _ \<Rightarrow> False)"

text \<open>
  The loop \<open>for event := range streamed.Events\<close> with its \<open>switch\<close>. The branch of
  \<open>turn.failed\<close> ends the loop (\<open>cancel()\<close>, \<open>break loop\<close>): the events after it are not
  received.
\<close>

fun Run_loop :: "ThreadEvent list \<Rightarrow> Run_vars \<Rightarrow> Run_vars" where
  "Run_loop [] v = v"
| "Run_loop (event # rest) v =
     (if Type event = EventItemCompleted then
        (case Item event of
           Some item \<Rightarrow>
             Run_loop rest
               (v\<lparr>finalResponse := (if is_AgentMessageItem item then Text item else finalResponse v),
                  items := items v @ [item]\<rparr>)
         | None \<Rightarrow> Run_loop rest v)
      else if Type event = EventTurnCompleted then Run_loop rest (v\<lparr>usage := Usage event\<rparr>)
      else if Type event = EventTurnFailed then
        v\<lparr>turnFailure :=
            Some (case Error event of Some e \<Rightarrow> e | None \<Rightarrow> ThreadError ''turn failed'')\<rparr>
      else Run_loop rest v)"

text \<open>
  \<open>(*Thread).Run\<close> from the value of \<open>t.runStreamedInternal(ctx, input, opts)\<close> on. The
  result is \<open>None\<close> when \<open>Run\<close> does not return (its \<open>Wait\<close> blocks), \<open>Some (Inl err)\<close> for
  \<open>return nil, err\<close> and \<open>Some (Inr turn)\<close> for \<open>return &turn, nil\<close>.
\<close>

definition Run :: "error + StreamedTurn \<Rightarrow> (error + Turn) option" where
  "Run started =
     (case started of
        Inl err \<Rightarrow> Some (Inl err)
      | Inr streamed \<Rightarrow>
          (let v = Run_loop (Events streamed)
                     \<lparr>items = [], finalResponse = [], usage = None, turnFailure = None\<rparr>
           in case StreamedTurn_Wait streamed of
                None \<Rightarrow> None
              | Some waitErr \<Rightarrow>
                  (case turnFailure v of
                     Some failure \<Rightarrow>
                       (case waitErr of
                          Some err \<Rightarrow>
                            if \<not> errors_Is err Canceled then Some (Inl err)
                            else Some (Inl (ErrorString (ThreadError_Message failure)))
                        | None \<Rightarrow> Some (Inl (ErrorString (ThreadError_Message failure))))
                   | None \<Rightarrow>
                       (case waitErr of
                          Some err \<Rightarrow> Some (Inl err)
                        | None \<Rightarrow> Some (Inr (Turn (items v) (finalResponse v) (usage v)))))))"

section \<open>The spec's words, as definitions\<close>


text \<open>
  The three parts of a \<open>Turn\<close> as the spec describes them: the items of the
  \<open>item.completed\<close> events in their order, the text of the last agent message among them
  (or the empty text), the usage of the last \<open>turn.completed\<close> event (or nil).
\<close>

definition spec_Items :: "ThreadEvent list \<Rightarrow> ThreadItem list" where
  "spec_Items evs =
     concat (map (\<lambda>e. if Type e = EventItemCompleted
                       then (case Item e of Some item \<Rightarrow> [item] | None \<Rightarrow> []) else []) evs)"

definition spec_FinalResponse :: "ThreadEvent list \<Rightarrow> string" where
  "spec_FinalResponse evs =
     (case filter is_AgentMessageItem (spec_Items evs) of
        [] \<Rightarrow> []
      | m # ms \<Rightarrow> Text (last (m # ms)))"

definition spec_Usage :: "ThreadEvent list \<Rightarrow> Usage option" where
  "spec_Usage evs =
     (case filter (\<lambda>e. Type e = EventTurnCompleted) evs of
        [] \<Rightarrow> None
      | c # cs \<Rightarrow> Usage (last (c # cs)))"

text \<open>The item kinds that the spec calls the known set.\<close>

definition spec_known_kinds :: "string list" where
  "spec_known_kinds =
     [''agent_message'', ''reasoning'', ''command_execution'', ''file_change'', ''mcp_tool_call'',
      ''web_search'', ''todo_list'', ''error'']"

text \<open>
  The lines of an output stream, each with its line feed; bytes behind the last line
  feed are a last line.
\<close>

fun spec_lines :: "string \<Rightarrow> string list" where
  "spec_lines [] = []"
| "spec_lines (c # cs) =
     (if c = CHR 0x0A then [c] # spec_lines cs
      else case spec_lines cs of [] \<Rightarrow> [[c]] | l # ls \<Rightarrow> (c # l) # ls)"

text \<open>The lines that are not blank, without the white space around them.\<close>

definition spec_nonblank :: "string \<Rightarrow> string list" where
  "spec_nonblank out = filter (\<lambda>l. l \<noteq> []) (map TrimSpace (spec_lines out))"

text \<open>
  The decoding of a sequence of lines in their order, up to and excluding the first
  line that fails to decode, and the error of that line.
\<close>

fun spec_decode :: "string list \<Rightarrow> ThreadEvent list" where
  "spec_decode [] = []"
| "spec_decode (l # ls) =
     (case UnmarshalJSON l of Inl err \<Rightarrow> [] | Inr e \<Rightarrow> e # spec_decode ls)"

fun spec_decode_error :: "string list \<Rightarrow> error option" where
  "spec_decode_error [] = None"
| "spec_decode_error (l # ls) =
     (case UnmarshalJSON l of Inl err \<Rightarrow> Some err | Inr e \<Rightarrow> spec_decode_error ls)"

definition spec_events :: "string \<Rightarrow> ThreadEvent list" where
  "spec_events out = spec_decode (spec_nonblank out)"

text \<open>A run in which the task never finds its context done.\<close>

definition uncancelled :: "schedule \<Rightarrow> bool" where
  "uncancelled sched = list_all (\<lambda>x. x = (None, Send)) sched"

text \<open>
  The identity after a sequence of events: the identifier of the last
  \<open>thread.started\<close> event that carries one, or the identity before them.
\<close>

definition spec_identity :: "string \<Rightarrow> ThreadEvent list \<Rightarrow> string" where
  "spec_identity i evs =
     (case filter (\<lambda>e. Type e = EventThreadStarted \<and> ThreadID e \<noteq> []) evs of
        [] \<Rightarrow> i
      | x # xs \<Rightarrow> ThreadID (last (x # xs)))"

text \<open>
  The error of the reading loop when it is not cancelled: that of the first line that
  does not decode, else that of the pipe unless it is the end of the output.
\<close>

definition spec_runErr :: "string \<Rightarrow> error \<Rightarrow> error option" where
  "spec_runErr out cl =
     (case spec_decode_error (spec_nonblank out) of
        Some err \<Rightarrow> Some (Errorf ''parse codex event: %w'' err [])
      | None \<Rightarrow>
          if errors_Is cl EOF then None else Some (Errorf ''read codex output: %w'' cl []))"

section \<open>Awaiting the process\<close>




lemma TrimSpace_Nil: "TrimSpace [] = []"
  by (simp add: TrimSpace_def TrimLeft.simps TrimRight.simps leadingSpace_def trailingSpace_def
      isSpaceRune_def spaceRunes_def)

text \<open>
  C2, as the code has it. The claim puts the exit status before the write to stdin;
  \<open>waitFn\<close> tests them in the other order. If the write to stdin failed, the result is
  that error (wrapped by \<open>write to codex stdin\<close>), whatever the exit status. Else, if
  \<open>cmd.Wait\<close> returned an \<open>ExitError\<close>, the result is an \<open>ErrExecFailed\<close> with its exit
  code and the captured stderr text without the white space around it. Else, if
  \<open>cmd.Wait\<close> returned another error, the result is that error (wrapped by
  \<open>codex exec failed\<close>). Else the result is nil.
\<close>

theorem waitFn_order:
  "(writeErr p = Some we \<longrightarrow> waitFn p = Some (Errorf ''write to codex stdin: %w'' we [])) \<and>
   (writeErr p = None \<and> cmd_Wait p = Some err \<and> errors_As_ExitError err = Some code \<longrightarrow>
      waitFn p = Some (ErrExecFailed code (TrimSpace (stderrBuf p)) (Some err))) \<and>
   (writeErr p = None \<and> cmd_Wait p = Some err \<and> errors_As_ExitError err = None \<longrightarrow>
      waitFn p = Some (Errorf ''codex exec failed: %w'' err [])) \<and>
   (writeErr p = None \<and> cmd_Wait p = None \<longrightarrow> waitFn p = None)"
  by (simp add: waitFn_def)

theorem waitFn_order_witness:
  "waitFn \<lparr>cmd_Wait = Some (ExitError 2), writeErr = Some (ErrorString ''broken pipe''),
           stderrBuf = ''early exit error''\<rparr>
     = Some (Errorf ''write to codex stdin: %w'' (ErrorString ''broken pipe'') []) \<and>
   waitFn \<lparr>cmd_Wait = Some (ExitError 2), writeErr = None, stderrBuf = ''early exit error''\<rparr>
     = Some (ErrExecFailed 2 (TrimSpace ''early exit error'') (Some (ExitError 2))) \<and>
   waitFn \<lparr>cmd_Wait = Some Canceled, writeErr = None, stderrBuf = []\<rparr>
     = Some (Errorf ''codex exec failed: %w'' Canceled []) \<and>
   waitFn \<lparr>cmd_Wait = None, writeErr = None, stderrBuf = []\<rparr> = None"
  using
    waitFn_order [of "\<lparr>cmd_Wait = Some (ExitError 2), writeErr = Some (ErrorString ''broken pipe''),
                       stderrBuf = ''early exit error''\<rparr>" "ErrorString ''broken pipe''"]
    waitFn_order [of "\<lparr>cmd_Wait = Some (ExitError 2), writeErr = None,
                       stderrBuf = ''early exit error''\<rparr>" _ "ExitError 2" 2]
    waitFn_order [of "\<lparr>cmd_Wait = Some Canceled, writeErr = None, stderrBuf = []\<rparr>" _ Canceled]
    waitFn_order [of "\<lparr>cmd_Wait = None, writeErr = None, stderrBuf = []\<rparr>"]
  by simp

text \<open>
  C2 as stated fails: a process that exits with status 2 while the write to its stdin
  fails. The result is the write error, not an \<open>ErrExecFailed\<close>.
\<close>

theorem waitFn_write_error_first:
  "waitFn \<lparr>cmd_Wait = Some (ExitError 2), writeErr = Some (ErrorString ''broken pipe''),
           stderrBuf = ''early exit error''\<rparr>
     = Some (Errorf ''write to codex stdin: %w'' (ErrorString ''broken pipe'') [])"
  by (simp add: waitFn_def)




section \<open>Aggregating a turn\<close>

lemma event_types_distinct:
  "EventTurnFailed \<noteq> EventItemCompleted" "EventTurnFailed \<noteq> EventTurnCompleted"
  "EventItemCompleted \<noteq> EventTurnCompleted"
  by (simp_all add: EventTurnFailed_def EventItemCompleted_def EventTurnCompleted_def)




lemma Run_loop_completed:
  assumes "\<forall>x \<in> set evs. Type x \<noteq> EventTurnFailed"
  shows "Run_loop evs v =
           \<lparr>items = items v @ spec_Items evs,
            finalResponse =
              (case filter is_AgentMessageItem (spec_Items evs) of
                 [] \<Rightarrow> finalResponse v
               | m # ms \<Rightarrow> Text (last (m # ms))),
            usage =
              (case filter (\<lambda>e. Type e = EventTurnCompleted) evs of
                 [] \<Rightarrow> usage v
               | c # cs \<Rightarrow> Usage (last (c # cs))),
            turnFailure = turnFailure v\<rparr>"
  using assms
proof (induction evs arbitrary: v)
  case Nil
  then show ?case by (simp add: spec_Items_def)
next
  case (Cons e evs)
  then have ih: "\<And>w. Run_loop evs w =
           \<lparr>items = items w @ spec_Items evs,
            finalResponse =
              (case filter is_AgentMessageItem (spec_Items evs) of
                 [] \<Rightarrow> finalResponse w
               | m # ms \<Rightarrow> Text (last (m # ms))),
            usage =
              (case filter (\<lambda>e. Type e = EventTurnCompleted) evs of
                 [] \<Rightarrow> usage w
               | c # cs \<Rightarrow> Usage (last (c # cs))),
            turnFailure = turnFailure w\<rparr>"
    by simp
  have nf: "Type e \<noteq> EventTurnFailed"
    using Cons.prems by simp
  consider (item) item where "Type e = EventItemCompleted" "Item e = Some item"
    | (noitem) "Type e = EventItemCompleted" "Item e = None"
    | (completed) "Type e = EventTurnCompleted"
    | (other) "Type e \<noteq> EventItemCompleted" "Type e \<noteq> EventTurnCompleted"
    by (cases "Item e") auto
  then show ?case
  proof cases
    case item
    have s: "spec_Items (e # evs) = item # spec_Items evs"
      using item by (simp add: spec_Items_def)
    show ?thesis
      using item event_types_distinct
      by (simp add: ih s split: list.splits)
  next
    case noitem
    have s: "spec_Items (e # evs) = spec_Items evs"
      using noitem by (simp add: spec_Items_def)
    show ?thesis
      using noitem event_types_distinct by (simp add: ih s)
  next
    case completed
    have s: "spec_Items (e # evs) = spec_Items evs"
      using completed event_types_distinct by (simp add: spec_Items_def)
    show ?thesis
      using completed event_types_distinct by (simp add: ih s split: list.splits)
  next
    case other
    have s: "spec_Items (e # evs) = spec_Items evs"
      using other by (simp add: spec_Items_def)
    show ?thesis
      using other nf by (simp add: ih s)
  qed
qed

text \<open>
  C6. The channel yields no \<open>turn.failed\<close> event and \<open>Wait\<close> returns nil. Then \<open>Run\<close>
  returns a \<open>Turn\<close> whose \<open>Items\<close> are the items of the \<open>item.completed\<close> events in
  their order, whose \<open>FinalResponse\<close> is the text of the last completed agent message
  (empty if there is none) and whose \<open>Usage\<close> is that of the last \<open>turn.completed\<close>
  event (nil if there is none). The events behind a \<open>turn.completed\<close> event count as
  those before it: the statement is about all events of the channel.
\<close>

theorem Run_completed:
  assumes "\<forall>x \<in> set (Events s). Type x \<noteq> EventTurnFailed" and "StreamedTurn_Wait s = Some None"
  shows "Run (Inr s) =
           Some (Inr (Turn (spec_Items (Events s)) (spec_FinalResponse (Events s))
                        (spec_Usage (Events s))))"
  using assms(2)
  by (simp add: Run_def Let_def Run_loop_completed [OF assms(1)] spec_FinalResponse_def
      spec_Usage_def split: list.splits)

theorem Run_completed_witness:
  "Run (Inr \<lparr>Events =
               [\<lparr>Type = EventItemCompleted, ThreadID = [], Usage = None, Error = None,
                  Item = Some (AgentMessageItem ''1'' ''agent_message'' ''hi''), Message = [],
                  rawItem = []\<rparr>,
                \<lparr>Type = EventTurnCompleted, ThreadID = [],
                  Usage = Some \<lparr>InputTokens = 100, CachedInputTokens = 20, OutputTokens = 50\<rparr>,
                  Error = None, Item = None, Message = [], rawItem = []\<rparr>,
                \<lparr>Type = EventItemCompleted, ThreadID = [], Usage = None, Error = None,
                  Item = Some (AgentMessageItem ''2'' ''agent_message'' ''bye''), Message = [],
                  rawItem = []\<rparr>],
              waitCh = [None]\<rparr>)
     = Some (Inr (Turn [AgentMessageItem ''1'' ''agent_message'' ''hi'',
                        AgentMessageItem ''2'' ''agent_message'' ''bye'']
                    ''bye''
                    (Some \<lparr>InputTokens = 100, CachedInputTokens = 20, OutputTokens = 50\<rparr>)))"
proof -
  let ?s = "\<lparr>Events =
               [\<lparr>Type = EventItemCompleted, ThreadID = [], Usage = None, Error = None,
                  Item = Some (AgentMessageItem ''1'' ''agent_message'' ''hi''), Message = [],
                  rawItem = []\<rparr>,
                \<lparr>Type = EventTurnCompleted, ThreadID = [],
                  Usage = Some \<lparr>InputTokens = 100, CachedInputTokens = 20, OutputTokens = 50\<rparr>,
                  Error = None, Item = None, Message = [], rawItem = []\<rparr>,
                \<lparr>Type = EventItemCompleted, ThreadID = [], Usage = None, Error = None,
                  Item = Some (AgentMessageItem ''2'' ''agent_message'' ''bye''), Message = [],
                  rawItem = []\<rparr>],
              waitCh = [None]\<rparr>"
  have a: "\<forall>x \<in> set (Events ?s). Type x \<noteq> EventTurnFailed"
    by (simp add: EventItemCompleted_def EventTurnCompleted_def EventTurnFailed_def)
  have b: "StreamedTurn_Wait ?s = Some None"
    by (simp add: StreamedTurn_Wait_def)
  show ?thesis
    using Run_completed [OF a b]
    by (simp add: spec_Items_def spec_FinalResponse_def spec_Usage_def is_AgentMessageItem_def
        EventItemCompleted_def EventTurnCompleted_def)
qed

section \<open>Decoding items\<close>

text \<open>
  C4. An item payload whose discriminator (the field \<open>type\<close>, as the first decoding
  reads it) is not empty and is none of the eight known kinds decodes without error to
  the \<open>UnknownItem\<close> that holds this discriminator and the bytes of the payload.
\<close>

theorem unmarshalThreadItem_unknown:
  assumes "Unmarshal (decStruct discriminator_field) data [] = Inr ty"
    and "ty \<noteq> []" and "ty \<notin> set spec_known_kinds"
  shows "unmarshalThreadItem data = Inr (UnknownItem ty data)"
  using assms
  by (simp add: unmarshalThreadItem_def spec_known_kinds_def ItemAgentMessage_def
      ItemReasoning_def ItemCommandExecution_def ItemFileChange_def ItemMcpToolCall_def
      ItemWebSearch_def ItemTodoList_def ItemError_def)

theorem unmarshalThreadItem_unknown_witness:
  \<open>unmarshalThreadItem ''{"type":"future_type","data":"test"}''
     = Inr (UnknownItem ''future_type'' ''{"type":"future_type","data":"test"}'')\<close>
proof -
  have a: \<open>Unmarshal (decStruct discriminator_field) ''{"type":"future_type","data":"test"}'' []
             = Inr ''future_type''\<close>
    by code_simp
  have b: "''future_type'' \<noteq> []"
    by simp
  have c: "''future_type'' \<notin> set spec_known_kinds"
    by (simp add: spec_known_kinds_def)
  show ?thesis
    using unmarshalThreadItem_unknown [OF a b c] .
qed

section \<open>The background task\<close>


lemma cut_lines:
  "cut s = Some (line, rest) \<Longrightarrow> spec_lines s = line # spec_lines rest"
  "cut s = None \<Longrightarrow> spec_lines s = (if s = [] then [] else [s])"
  by (induction s arbitrary: line) (auto split: if_splits option.splits)


lemma parse_Nil: "parse [] = Inl SyntaxError"
  by (simp add: parse_def skipSpace_def)

lemma UnmarshalJSON_Nil: "UnmarshalJSON [] = Inl SyntaxError"
  by (simp add: UnmarshalJSON_def Unmarshal_def parse_Nil)

lemma afterLine_simps:
  "afterLine None None = None"
  "afterLine (Some e) readErr = Some (Some e)"
  "afterLine None (Some re) =
     Some (if errors_Is re EOF then None else Some (Errorf ''read codex output: %w'' re []))"
  by (auto simp: afterLine_def split: option.splits)

text \<open>
  C7. The task sends one value on \<open>errCh\<close>. With \<open>runErr\<close> the error of the reading loop
  and \<open>waitErr\<close> the value of \<open>stream.Wait()\<close>, this value is: \<open>waitErr\<close> when \<open>runErr\<close> is
  nil; \<open>runErr\<close> when \<open>waitErr\<close> is nil, or when \<open>waitErr\<close> is \<open>runErr\<close> or an error it
  wraps (\<open>errors.Is(runErr, waitErr)\<close>, the test of the code for the same error);
  otherwise the error that wraps \<open>runErr\<close> and adds the text of \<open>waitErr\<close> behind
  \<open>wait error\<close>.
\<close>

theorem runTask_outcome:
  "length (errCh (runTask sched t stream)) = 1 \<and>
   (runErr (readLoop sched t (Stdout stream)) = None \<longrightarrow>
      errCh (runTask sched t stream) = [ExecStream_Wait stream]) \<and>
   (runErr (readLoop sched t (Stdout stream)) = Some r \<and> ExecStream_Wait stream = None \<longrightarrow>
      errCh (runTask sched t stream) = [Some r]) \<and>
   (runErr (readLoop sched t (Stdout stream)) = Some r \<and> ExecStream_Wait stream = Some w \<and>
      errors_Is r w \<longrightarrow> errCh (runTask sched t stream) = [Some r]) \<and>
   (runErr (readLoop sched t (Stdout stream)) = Some r \<and> ExecStream_Wait stream = Some w \<and>
      \<not> errors_Is r w \<longrightarrow>
      errCh (runTask sched t stream) = [Some (Errorf ''%w; wait error: %v'' r [w])])"
  by (simp add: runTask_def reconcile_def Let_def)

lemma readLoop_done_at_head:
  "readLoop ((Some e, c) # sched) t rd = \<lparr>sent = [], runErr = Some e, thread = t, reader = rd\<rparr>"
  by (subst readLoop.simps) (simp add: atHead_def)

lemma readLoop_empty:
  "readLoop [] t \<lparr>pending = [], closing = EOF\<rparr>
     = \<lparr>sent = [], runErr = None, thread = t, reader = \<lparr>pending = [], closing = EOF\<rparr>\<rparr>"
  by (subst readLoop.simps)
    (simp add: atHead_def atSelect_def body_def ReadBytes_def TrimSpace_Nil afterLine_simps)

theorem runTask_outcome_witness:
  "errCh (runTask [] StartThread
            \<lparr>Stdout = \<lparr>pending = [], closing = EOF\<rparr>,
             proc = \<lparr>cmd_Wait = Some (ExitError 1), writeErr = None, stderrBuf = ''crash''\<rparr>\<rparr>)
     = [Some (ErrExecFailed 1 (TrimSpace ''crash'') (Some (ExitError 1)))] \<and>
   errCh (runTask [(Some Canceled, Send)] StartThread
            \<lparr>Stdout = \<lparr>pending = [], closing = EOF\<rparr>,
             proc = \<lparr>cmd_Wait = None, writeErr = None, stderrBuf = []\<rparr>\<rparr>)
     = [Some Canceled] \<and>
   errCh (runTask [(Some (Errorf ''codex exec failed: %w'' Canceled []), Send)] StartThread
            \<lparr>Stdout = \<lparr>pending = [], closing = EOF\<rparr>,
             proc = \<lparr>cmd_Wait = Some Canceled, writeErr = None, stderrBuf = []\<rparr>\<rparr>)
     = [Some (Errorf ''codex exec failed: %w'' Canceled [])] \<and>
   errCh (runTask [(Some Canceled, Send)] StartThread
            \<lparr>Stdout = \<lparr>pending = [], closing = EOF\<rparr>,
             proc = \<lparr>cmd_Wait = Some (ExitError 1), writeErr = None, stderrBuf = []\<rparr>\<rparr>)
     = [Some (Errorf ''%w; wait error: %v'' Canceled
               [ErrExecFailed 1 (TrimSpace []) (Some (ExitError 1))])]"
proof -
  let ?out = "\<lparr>pending = [], closing = EOF\<rparr>"
  let ?s1 = "\<lparr>Stdout = ?out,
              proc = \<lparr>cmd_Wait = Some (ExitError 1), writeErr = None, stderrBuf = ''crash''\<rparr>\<rparr>"
  let ?s2 = "\<lparr>Stdout = ?out, proc = \<lparr>cmd_Wait = None, writeErr = None, stderrBuf = []\<rparr>\<rparr>"
  let ?s3 = "\<lparr>Stdout = ?out, proc = \<lparr>cmd_Wait = Some Canceled, writeErr = None, stderrBuf = []\<rparr>\<rparr>"
  let ?s4 = "\<lparr>Stdout = ?out,
              proc = \<lparr>cmd_Wait = Some (ExitError 1), writeErr = None, stderrBuf = []\<rparr>\<rparr>"
  let ?w3 = "Errorf ''codex exec failed: %w'' Canceled []"
  show ?thesis
    using
      runTask_outcome [of "[]" StartThread ?s1]
      runTask_outcome [of "[(Some Canceled, Send)]" StartThread ?s2 Canceled]
      runTask_outcome [of "[(Some ?w3, Send)]" StartThread ?s3 ?w3 ?w3]
      runTask_outcome [of "[(Some Canceled, Send)]" StartThread ?s4 Canceled
        "ErrExecFailed 1 (TrimSpace []) (Some (ExitError 1))"]
    by (simp add: readLoop_done_at_head readLoop_empty ExecStream_Wait_def waitFn_def)
qed

lemma uncancelled_simps:
  "uncancelled sched \<Longrightarrow> atHead sched = None"
  "uncancelled sched \<Longrightarrow> atSelect sched = Send"
  "uncancelled sched \<Longrightarrow> uncancelled (tl sched)"
  by (cases sched; auto simp: uncancelled_def atHead_def atSelect_def)+

lemma body_blank:
  "ReadBytes rd = (line, readErr, rd') \<Longrightarrow> TrimSpace line = [] \<Longrightarrow>
   body sel t rd = \<lparr>sent1 = [], thread1 = t, reader1 = rd', ended = afterLine None readErr\<rparr>"
  by (simp add: body_def)

lemma body_bad:
  "ReadBytes rd = (line, readErr, rd') \<Longrightarrow> TrimSpace line \<noteq> [] \<Longrightarrow>
   UnmarshalJSON (TrimSpace line) = Inl err \<Longrightarrow>
   body sel t rd = \<lparr>sent1 = [], thread1 = t, reader1 = rd',
                     ended = Some (Some (Errorf ''parse codex event: %w'' err []))\<rparr>"
  by (simp add: body_def)

lemma body_sent:
  "ReadBytes rd = (line, readErr, rd') \<Longrightarrow> TrimSpace line \<noteq> [] \<Longrightarrow>
   UnmarshalJSON (TrimSpace line) = Inr e \<Longrightarrow>
   body Send t rd = \<lparr>sent1 = [e], thread1 = observe t e, reader1 = rd',
                      ended = afterLine None readErr\<rparr>"
  by (simp add: body_def)

lemma body_done:
  "ReadBytes rd = (line, readErr, rd') \<Longrightarrow> TrimSpace line \<noteq> [] \<Longrightarrow>
   UnmarshalJSON (TrimSpace line) = Inr e \<Longrightarrow>
   body (Done ce) t rd = \<lparr>sent1 = [], thread1 = observe t e, reader1 = rd',
                           ended = Some (Some ce)\<rparr>"
  by (simp add: body_def afterLine_simps)

lemma readLoop_unfold:
  "atHead sched = None \<Longrightarrow>
   readLoop sched t rd =
     (if ended (body (atSelect sched) t rd) \<noteq> None then
        \<lparr>sent = sent1 (body (atSelect sched) t rd),
         runErr = the (ended (body (atSelect sched) t rd)),
         thread = thread1 (body (atSelect sched) t rd),
         reader = reader1 (body (atSelect sched) t rd)\<rparr>
      else (readLoop (tl sched) (thread1 (body (atSelect sched) t rd))
              (reader1 (body (atSelect sched) t rd)))
           \<lparr>sent := sent1 (body (atSelect sched) t rd)
                     @ sent (readLoop (tl sched) (thread1 (body (atSelect sched) t rd))
                               (reader1 (body (atSelect sched) t rd)))\<rparr>)"
  by (subst readLoop.simps) (simp add: Let_def)

lemma spec_nonblank_cut:
  "cut s = Some (line, rest) \<Longrightarrow>
   spec_nonblank s = (if TrimSpace line = [] then [] else [TrimSpace line]) @ spec_nonblank rest"
  "cut s = None \<Longrightarrow> spec_nonblank s = (if TrimSpace s = [] then [] else [TrimSpace s])"
  by (simp_all add: spec_nonblank_def cut_lines TrimSpace_Nil)

text \<open>
  A run that is not cancelled sends the decoding of the lines that are not blank, stores
  the identity of each event it decodes, and ends with the error of the first line that
  does not decode, or else with the error of the pipe unless that is the end of the
  output.
\<close>

lemma readLoop_uncancelled:
  assumes "uncancelled sched"
  shows "sent (readLoop sched t rd) = spec_events (pending rd) \<and>
         thread (readLoop sched t rd) = foldl observe t (spec_events (pending rd)) \<and>
         runErr (readLoop sched t rd) = spec_runErr (pending rd) (closing rd)"
  using assms
proof (induction sched t rd rule: readLoop.induct)
  case (1 sched t rd)
  have h: "atHead sched = None" "atSelect sched = Send" "uncancelled (tl sched)"
    using "1.prems" uncancelled_simps by blast+
  have h': "\<not> atHead sched \<noteq> None"
    using h(1) by simp
  note u = readLoop_unfold [OF h(1), of t rd, unfolded h(2)]
  show ?case
  proof (cases "cut (pending rd)")
    case None
    then have rb: "ReadBytes rd = (pending rd, Some (closing rd), rd\<lparr>pending := []\<rparr>)"
      by (simp add: ReadBytes_def)
    note nb = spec_nonblank_cut(2) [OF None]
    show ?thesis
    proof (cases "TrimSpace (pending rd) = []")
      case True
      show ?thesis
        by (simp add: u body_blank [OF rb True] afterLine_simps nb True spec_events_def spec_runErr_def)
    next
      case False
      show ?thesis
      proof (cases "UnmarshalJSON (TrimSpace (pending rd))")
        case (Inl err)
        show ?thesis
          by (simp add: u body_bad [OF rb False Inl] nb False spec_events_def spec_runErr_def Inl)
      next
        case (Inr e)
        show ?thesis
          by (simp add: u body_sent [OF rb False Inr] afterLine_simps nb False spec_events_def spec_runErr_def Inr)
      qed
    qed
  next
    case (Some a)
    then obtain line rest where c: "cut (pending rd) = Some (line, rest)"
      by (cases a) simp
    then have rb: "ReadBytes rd = (line, None, rd\<lparr>pending := rest\<rparr>)"
      by (simp add: ReadBytes_def)
    note nb = spec_nonblank_cut(1) [OF c]
    show ?thesis
    proof (cases "TrimSpace line = []")
      case True
      note b = body_blank [OF rb True, of Send t]
      have e: "\<not> ended (body (atSelect sched) t rd) \<noteq> None"
        by (simp add: h(2) b afterLine_simps)
      note ih = "1.IH" [OF h' e h(3), unfolded h(2) b, simplified]
      show ?thesis
        using ih by (simp add: u b afterLine_simps nb True spec_events_def spec_runErr_def)
    next
      case False
      show ?thesis
      proof (cases "UnmarshalJSON (TrimSpace line)")
        case (Inl err)
        show ?thesis
          by (simp add: u body_bad [OF rb False Inl] nb False spec_events_def spec_runErr_def Inl)
      next
        case (Inr ev)
        note b = body_sent [OF rb False Inr, of t]
        have e: "\<not> ended (body (atSelect sched) t rd) \<noteq> None"
          by (simp add: h(2) b afterLine_simps)
        note ih = "1.IH" [OF h' e h(3), unfolded h(2) b, simplified]
        show ?thesis
          using ih by (simp add: u b afterLine_simps nb False spec_events_def spec_runErr_def Inr)
      qed
    qed
  qed
qed

lemma foldl_observe_identity: "ID (foldl observe t evs) = spec_identity (ID t) evs"
proof (induction evs arbitrary: t)
  case Nil
  then show ?case by (simp add: spec_identity_def)
next
  case (Cons e evs)
  show ?case
    by (simp add: Cons.IH [of "observe t e"])
      (auto simp: spec_identity_def observe_def setID_def ID_def split: list.splits)
qed

lemma observe_identity:
  "ID (observe t e) = ID t \<or>
   (Type e = EventThreadStarted \<and> ThreadID e \<noteq> [] \<and> ID (observe t e) = ThreadID e)"
  by (simp add: observe_def setID_def ID_def)

lemma body_thread:
  assumes "ReadBytes rd = (line, readErr, rd')"
  shows "thread1 (body sel t rd) = t \<or>
         (line \<noteq> [] \<and> (\<exists>e. UnmarshalJSON (TrimSpace line) = Inr e \<and>
                              thread1 (body sel t rd) = observe t e))"
proof (cases "TrimSpace line = []")
  case True
  then show ?thesis by (simp add: body_blank [OF assms True])
next
  case False
  then have ne: "line \<noteq> []"
    using TrimSpace_Nil by auto
  show ?thesis
  proof (cases "UnmarshalJSON (TrimSpace line)")
    case (Inl err)
    then show ?thesis by (simp add: body_bad [OF assms False Inl])
  next
    case (Inr e)
    then show ?thesis
      using ne by (cases sel) (simp_all add: body_sent [OF assms False Inr] body_done [OF assms False Inr])
  qed
qed

lemma body_reader:
  assumes "ReadBytes rd = (line, readErr, rd')"
  shows "reader1 (body sel t rd) = rd'"
  using assms by (simp add: body_def Let_def split: sum.splits select_case.splits)

lemma ReadBytes_lines:
  assumes "ReadBytes rd = (line, readErr, rd')"
  shows "set (spec_lines (pending rd')) \<subseteq> set (spec_lines (pending rd))"
    and "line \<noteq> [] \<Longrightarrow> line \<in> set (spec_lines (pending rd))"
  using assms
  by (cases "cut (pending rd)"; auto simp: ReadBytes_def cut_lines)+

text \<open>
  Whatever the schedule, the identity after the loop is the one before it or the
  identifier of a \<open>thread.started\<close> line of the output.
\<close>

lemma readLoop_identity_source:
  "ID (thread (readLoop sched t rd)) = ID t \<or>
   (\<exists>line \<in> set (spec_lines (pending rd)). \<exists>e.
      UnmarshalJSON (TrimSpace line) = Inr e \<and> Type e = EventThreadStarted \<and>
      ThreadID e \<noteq> [] \<and> ID (thread (readLoop sched t rd)) = ThreadID e)"
proof (induction sched t rd rule: readLoop.induct)
  case (1 sched t rd)
  define from_line where "from_line out i \<longleftrightarrow>
    (\<exists>line \<in> set (spec_lines out). \<exists>e.
       UnmarshalJSON (TrimSpace line) = Inr e \<and> Type e = EventThreadStarted \<and>
       ThreadID e \<noteq> [] \<and> i = ThreadID e)" for out i
  have goal: "ID (thread (readLoop sched t rd)) = ID t
              \<or> from_line (pending rd) (ID (thread (readLoop sched t rd)))"
  proof (cases "atHead sched = None")
    case False
    then have "readLoop sched t rd = \<lparr>sent = [], runErr = atHead sched, thread = t, reader = rd\<rparr>"
      by (subst readLoop.simps) simp
    then show ?thesis by simp
  next
    case True
    define b where "b = body (atSelect sched) t rd"
    obtain line readErr rd' where rb: "ReadBytes rd = (line, readErr, rd')"
      by (cases "ReadBytes rd") auto
    have rd': "reader1 b = rd'"
      unfolding b_def by (rule body_reader [OF rb])
    have sub: "set (spec_lines (pending rd')) \<subseteq> set (spec_lines (pending rd))"
      by (rule ReadBytes_lines(1) [OF rb])
    have mono: "from_line (pending rd') i \<Longrightarrow> from_line (pending rd) i" for i
      unfolding from_line_def using sub by blast
    have first: "ID (thread1 b) = ID t \<or> from_line (pending rd) (ID (thread1 b))"
    proof -
      consider "thread1 b = t"
        | e where "line \<noteq> []" "UnmarshalJSON (TrimSpace line) = Inr e" "thread1 b = observe t e"
        using body_thread [OF rb, of "atSelect sched" t] unfolding b_def by blast
      then show ?thesis
      proof cases
        case 1
        then show ?thesis by simp
      next
        case 2
        have mem: "line \<in> set (spec_lines (pending rd))"
          by (rule ReadBytes_lines(2) [OF rb 2(1)])
        from observe_identity [of t e] show ?thesis
        proof
          assume "ID (observe t e) = ID t"
          then show ?thesis using 2(3) by simp
        next
          assume "Type e = EventThreadStarted \<and> ThreadID e \<noteq> [] \<and> ID (observe t e) = ThreadID e"
          then have "from_line (pending rd) (ID (thread1 b))"
            unfolding from_line_def using mem 2(2,3) by auto
          then show ?thesis ..
        qed
      qed
    qed
    show ?thesis
    proof (cases "ended b \<noteq> None")
      case e: True
      have "thread (readLoop sched t rd) = thread1 b"
        using e unfolding b_def by (simp add: readLoop_unfold [OF True])
      then show ?thesis using first by simp
    next
      case e: False
      define r where "r = readLoop (tl sched) (thread1 b) (reader1 b)"
      have t: "thread (readLoop sched t rd) = thread r"
        using e unfolding b_def r_def by (simp add: readLoop_unfold [OF True])
      have h': "\<not> atHead sched \<noteq> None"
        using True by simp
      have e': "\<not> ended (body (atSelect sched) t rd) \<noteq> None"
        using e unfolding b_def .
      have "ID (thread r) = ID (thread1 b) \<or> from_line (pending (reader1 b)) (ID (thread r))"
        using "1.IH" [OF h' e'] unfolding b_def r_def from_line_def .
      then have "ID (thread r) = ID (thread1 b) \<or> from_line (pending rd) (ID (thread r))"
        unfolding rd' using mono by blast
      then show ?thesis
        unfolding t using first by auto
    qed
  qed
  then show ?case
    unfolding from_line_def .
qed








text \<open>
  C8, as the code has it. \<open>setID\<close> stores every identifier that is not empty, so the
  identity is written by each \<open>thread.started\<close> event that carries one, not only by the
  first. After a run that is not cancelled, \<open>ID()\<close> is the identifier of the last such
  event of the output, or the identity before the run when there is none; for two
  \<open>thread.started\<close> events with identifiers that are not empty it is the second.
\<close>

theorem identity_is_last_started:
  assumes "uncancelled sched"
  shows "ID (thread' (runTask sched t stream))
           = spec_identity (ID t) (spec_events (pending (Stdout stream))) \<and>
         (Type a = EventThreadStarted \<and> ThreadID a \<noteq> [] \<and>
          Type b = EventThreadStarted \<and> ThreadID b \<noteq> [] \<longrightarrow>
            spec_identity i [a, b] = ThreadID b)"
  using readLoop_uncancelled [OF assms, of t "Stdout stream"]
    foldl_observe_identity [of t "spec_events (pending (Stdout stream))"]
  by (simp add: runTask_def Let_def spec_identity_def)

theorem identity_is_last_started_witness:
  \<open>ID (thread' (runTask [] (ResumeThread ''zero'')
      \<lparr>Stdout = \<lparr>pending = ''{"type":"thread.started","thread_id":"one"}\<newline>{"type":"thread.started","thread_id":"two"}\<newline>'',
                 closing = EOF\<rparr>,
       proc = \<lparr>cmd_Wait = None, writeErr = None, stderrBuf = []\<rparr>\<rparr>)) = ''two''\<close>
proof -
  let ?out = \<open>''{"type":"thread.started","thread_id":"one"}\<newline>{"type":"thread.started","thread_id":"two"}\<newline>''\<close>
  let ?s = "\<lparr>Stdout = \<lparr>pending = ?out, closing = EOF\<rparr>,
             proc = \<lparr>cmd_Wait = None, writeErr = None, stderrBuf = []\<rparr>\<rparr>"
  have u: "uncancelled []"
    by (simp add: uncancelled_def)
  have ev: "spec_identity (ID (ResumeThread ''zero'')) (spec_events ?out) = ''two''"
    by code_simp
  show ?thesis
    using identity_is_last_started [OF u, of "ResumeThread ''zero''" ?s] ev by simp
qed

text \<open>
  C8 as stated fails: two \<open>thread.started\<close> events with the identifiers \<open>a\<close> and \<open>b\<close>.
  After both, \<open>ID()\<close> is \<open>b\<close>, the identifier of the second, not that of the first.
\<close>

theorem identity_overwritten:
  \<open>ID (thread' (runTask [] StartThread
      \<lparr>Stdout = \<lparr>pending = ''{"type":"thread.started","thread_id":"a"}\<newline>{"type":"thread.started","thread_id":"b"}\<newline>'',
                 closing = EOF\<rparr>,
       proc = \<lparr>cmd_Wait = None, writeErr = None, stderrBuf = []\<rparr>\<rparr>)) = ''b'' \<and>
   ''b'' \<noteq> ''a''\<close>
  by code_simp

text \<open>
  C10. \<open>setID\<close> with the empty string changes nothing, and an identity that is not empty
  stays so: after \<open>setID\<close>, and after a whole run of the task under any schedule. A
  \<open>thread.started\<close> event with an empty \<open>thread_id\<close> leaves the thread as it is. The
  identity of a new thread is empty and that of a resumed thread is the one given to
  \<open>ResumeThread\<close>; after a run, the identity is the one before the run or the identifier,
  not empty, of a \<open>thread.started\<close> line of the output.
\<close>

theorem identity_never_cleared:
  "setID t [] = t \<and>
   (ID t \<noteq> [] \<longrightarrow> ID (setID t i) \<noteq> []) \<and>
   (Type e = EventThreadStarted \<and> ThreadID e = [] \<longrightarrow> observe t e = t) \<and>
   (ID t \<noteq> [] \<longrightarrow> ID (thread' (runTask sched t stream)) \<noteq> []) \<and>
   ID StartThread = [] \<and> ID (ResumeThread i) = i \<and>
   (ID (thread' (runTask sched t stream)) = ID t \<or>
    (\<exists>line \<in> set (spec_lines (pending (Stdout stream))). \<exists>ev.
       UnmarshalJSON (TrimSpace line) = Inr ev \<and> Type ev = EventThreadStarted \<and>
       ThreadID ev \<noteq> [] \<and> ID (thread' (runTask sched t stream)) = ThreadID ev))"
proof -
  have src: "ID (thread' (runTask sched t stream)) = ID t \<or>
    (\<exists>line \<in> set (spec_lines (pending (Stdout stream))). \<exists>ev.
       UnmarshalJSON (TrimSpace line) = Inr ev \<and> Type ev = EventThreadStarted \<and>
       ThreadID ev \<noteq> [] \<and> ID (thread' (runTask sched t stream)) = ThreadID ev)"
    using readLoop_identity_source [of sched t "Stdout stream"]
    by (simp add: runTask_def Let_def)
  have keep: "ID t \<noteq> [] \<longrightarrow> ID (thread' (runTask sched t stream)) \<noteq> []"
    using src by auto
  have basic: "setID t [] = t \<and> (ID t \<noteq> [] \<longrightarrow> ID (setID t i) \<noteq> []) \<and>
    (Type e = EventThreadStarted \<and> ThreadID e = [] \<longrightarrow> observe t e = t) \<and>
    ID StartThread = [] \<and> ID (ResumeThread i) = i"
    by (simp add: setID_def ID_def observe_def StartThread_def ResumeThread_def)
  show ?thesis
    using src keep basic by blast
qed

theorem identity_never_cleared_witness:
  \<open>setID (ResumeThread ''abc'') [] = ResumeThread ''abc'' \<and>
   ID (setID (ResumeThread ''abc'') ''xyz'') \<noteq> [] \<and>
   observe (ResumeThread ''abc'')
     \<lparr>Type = EventThreadStarted, ThreadID = [], Usage = None, Error = None, Item = None,
      Message = [], rawItem = []\<rparr> = ResumeThread ''abc'' \<and>
   ID (thread' (runTask [(Some Canceled, Send)] (ResumeThread ''abc'')
         \<lparr>Stdout = \<lparr>pending = ''{"type":"thread.started","thread_id":""}\<newline>'', closing = EOF\<rparr>,
          proc = \<lparr>cmd_Wait = None, writeErr = None, stderrBuf = []\<rparr>\<rparr>)) \<noteq> []\<close>
  using identity_never_cleared
    [of "ResumeThread ''abc''" "''xyz''"
      "\<lparr>Type = EventThreadStarted, ThreadID = [], Usage = None, Error = None, Item = None,
        Message = [], rawItem = []\<rparr>"
      "[(Some Canceled, Send)]"
      \<open>\<lparr>Stdout = \<lparr>pending = ''{"type":"thread.started","thread_id":""}\<newline>'', closing = EOF\<rparr>,
        proc = \<lparr>cmd_Wait = None, writeErr = None, stderrBuf = []\<rparr>\<rparr>\<close>]
  by (simp add: ID_def ResumeThread_def)

end
